theory Spec2Isabelle
  imports Main "HOL-Library.Word"
begin

section \<open>Package fs: mountpaths (fs/mountfs.go)\<close>

text \<open>
  A mountpath is a local directory served by one filesystem. \<open>MountedFS\<close> keeps the
  available and the disabled mountpaths in two maps from the cleaned path to its
  \<open>MountpathInfo\<close>; both maps are published as whole values (\<open>updatePaths\<close>), and
  \<open>fsIDs\<close> remembers which path registered a filesystem identifier.
\<close>

type_synonym Fsid = "32 word \<times> 32 word"

record MountpathInfo =
  Path :: string
  OrigPath :: string
  Fsid :: Fsid
  FileSystem :: string
  PathDigest :: "64 word"

text \<open>
  What the operating system and the Go library answer: \<open>filepath.Clean\<close>,
  \<open>os.Stat\<close> (does the call succeed), \<open>syscall.Statfs\<close> (the filesystem
  identifier, or failure), \<open>Fqn2fsAtStartup\<close> (the filesystem name, or failure) and
  the xxhash digest of a path. None of them is code of the package; the operations
  take them as a parameter.
\<close>

record os_env =
  clean :: "string \<Rightarrow> string"
  stat_ok :: "string \<Rightarrow> bool"
  statfs :: "string \<Rightarrow> Fsid option"
  fqn2fs :: "string \<Rightarrow> string option"
  digest :: "string \<Rightarrow> 64 word"

datatype glog_arg = AStr string | AInt int

text \<open>The effects of the package besides its maps: log lines and calls to \<open>Iostats\<close>.\<close>

datatype fs_event =
    GlogErrorf string "glog_arg list"
  | GlogInfof string "glog_arg list"
  | IostatsAddMpath string string
  | IostatsRemoveMpath string

datatype fs_error =
    ErrSuffix string string
  | ErrContains string string
  | ErrDoesNotExist string
  | ErrStatfs string
  | ErrFilesystem string
  | ErrAlreadyRegistered string
  | ErrSameFsid string string
  | ErrNonExisting string

text \<open>
  \<open>available\<close>, \<open>disabled\<close> and \<open>xattrMpath\<close> are atomic pointers: \<open>None\<close> is the
  nil pointer of a \<open>MountedFS\<close> that has published nothing yet.
\<close>

record MountedFS =
  fsIDs :: "Fsid \<rightharpoonup> string"
  checkFsID :: bool
  available :: "(string \<rightharpoonup> MountpathInfo) option"
  disabled :: "(string \<rightharpoonup> MountpathInfo) option"
  xattrMpath :: "MountpathInfo option"
  events :: "fs_event list"

definition LocalBs :: string where
  "LocalBs = ''local''"

definition CloudBs :: string where
  "CloudBs = ''cloud''"

definition separator :: string where
  "separator = ''/''"

text \<open>\<open>strings.HasSuffix\<close> and \<open>strings.Contains\<close> of the Go library.\<close>

definition HasSuffix :: "string \<Rightarrow> string \<Rightarrow> bool" where
  "HasSuffix s suf = (length suf \<le> length s \<and> drop (length s - length suf) s = suf)"

fun Contains :: "string \<Rightarrow> string \<Rightarrow> bool" where
  "Contains [] sub = (sub = [])"
| "Contains (c # cs) sub = (take (length sub) (c # cs) = sub \<or> Contains cs sub)"

definition newMountpath :: "os_env \<Rightarrow> string \<Rightarrow> Fsid \<Rightarrow> string \<Rightarrow> MountpathInfo" where
  "newMountpath os path fsid fs =
     \<lparr>Path = clean os path, OrigPath = path, Fsid = fsid, FileSystem = fs,
      PathDigest = digest os (clean os path)\<rparr>"

definition String :: "MountpathInfo \<Rightarrow> string" where
  "String mi = ''mp['' @ Path mi @ '', fs='' @ FileSystem mi @ '']''"

definition NewMountedFS :: MountedFS where
  "NewMountedFS =
     \<lparr>fsIDs = Map.empty, checkFsID = True, available = None, disabled = None,
      xattrMpath = None, events = []\<rparr>"

definition DisableFsIDCheck :: "MountedFS \<Rightarrow> MountedFS" where
  "DisableFsIDCheck mfs = mfs\<lparr>checkFsID := False\<rparr>"

text \<open>\<open>Get\<close>: both published maps, an empty map for a nil pointer.\<close>

definition Get :: "MountedFS \<Rightarrow> (string \<rightharpoonup> MountpathInfo) \<times> (string \<rightharpoonup> MountpathInfo)" where
  "Get mfs =
     ((case available mfs of None \<Rightarrow> Map.empty | Some a \<Rightarrow> a),
      (case disabled mfs of None \<Rightarrow> Map.empty | Some d \<Rightarrow> d))"

text \<open>\<open>mountpathsCopy\<close>: shallow copies of both maps; maps are values here.\<close>

definition mountpathsCopy :: "MountedFS \<Rightarrow> (string \<rightharpoonup> MountpathInfo) \<times> (string \<rightharpoonup> MountpathInfo)" where
  "mountpathsCopy mfs = Get mfs"

definition updatePaths ::
  "(string \<rightharpoonup> MountpathInfo) \<Rightarrow> (string \<rightharpoonup> MountpathInfo) \<Rightarrow> MountedFS \<Rightarrow> MountedFS" where
  "updatePaths av dis mfs = mfs\<lparr>available := Some av, disabled := Some dis, xattrMpath := None\<rparr>"

definition emit :: "fs_event list \<Rightarrow> MountedFS \<Rightarrow> MountedFS" where
  "emit es mfs = mfs\<lparr>events := events mfs @ es\<rparr>"

text \<open>The first loop of \<open>Add\<close>: a path must not end with or contain a bucket-locality segment.\<close>

fun check_reserved :: "string \<Rightarrow> string list \<Rightarrow> fs_error option" where
  "check_reserved mpath [] = None"
| "check_reserved mpath (bucket # bs) =
     (let invalidMpath = separator @ bucket in
      if HasSuffix mpath invalidMpath then Some (ErrSuffix mpath invalidMpath)
      else if Contains mpath (invalidMpath @ separator)
        then Some (ErrContains mpath (invalidMpath @ separator))
      else check_reserved mpath bs)"

text \<open>
  \<open>Add\<close>. The path is looked up in the available map only; \<open>Iostats.AddMpath\<close> runs
  before the filesystem identifier is checked; the identifier is checked only when
  \<open>checkFsID\<close> is set; \<open>fsIDs\<close> stores the path as entered.
\<close>

definition Add :: "os_env \<Rightarrow> string \<Rightarrow> MountedFS \<Rightarrow> fs_error option \<times> MountedFS" where
  "Add os mpath mfs =
     (case check_reserved mpath [LocalBs, CloudBs] of
        Some e \<Rightarrow> (Some e, mfs)
      | None \<Rightarrow>
          if \<not> stat_ok os mpath then (Some (ErrDoesNotExist mpath), mfs)
          else (case statfs os mpath of
            None \<Rightarrow> (Some (ErrStatfs mpath), mfs)
          | Some fsid \<Rightarrow>
             (case fqn2fs os mpath of
                None \<Rightarrow> (Some (ErrFilesystem mpath), mfs)
              | Some fs \<Rightarrow>
                 (let mp = newMountpath os mpath fsid fs;
                      (availablePaths, disabledPaths) = mountpathsCopy mfs
                  in case availablePaths (Path mp) of
                       Some _ \<Rightarrow> (Some (ErrAlreadyRegistered (Path mp)), mfs)
                     | None \<Rightarrow>
                        (let mfs1 = emit [IostatsAddMpath (Path mp) (FileSystem mp)] mfs
                         in case fsIDs mfs1 (Fsid mp) of
                              Some existingPath \<Rightarrow>
                                if checkFsID mfs1 then (Some (ErrSameFsid mpath existingPath), mfs1)
                                else (None, updatePaths (availablePaths(Path mp \<mapsto> mp)) disabledPaths
                                              (mfs1\<lparr>fsIDs := (fsIDs mfs1)(Fsid mp \<mapsto> mpath)\<rparr>))
                            | None \<Rightarrow>
                                (None, updatePaths (availablePaths(Path mp \<mapsto> mp)) disabledPaths
                                         (mfs1\<lparr>fsIDs := (fsIDs mfs1)(Fsid mp \<mapsto> mpath)\<rparr>)))))))"

text \<open>
  \<open>Remove\<close>: the cleaned path is searched in the available map, then in the disabled
  one. Removing the last available mountpath logs an error and still returns nil.
\<close>

definition Remove :: "os_env \<Rightarrow> string \<Rightarrow> MountedFS \<Rightarrow> fs_error option \<times> MountedFS" where
  "Remove os mpath0 mfs =
     (let mpath = clean os mpath0;
          (availablePaths, disabledPaths) = mountpathsCopy mfs
      in case availablePaths mpath of
           None \<Rightarrow>
             (case disabledPaths mpath of
                None \<Rightarrow> (Some (ErrNonExisting mpath), mfs)
              | Some mp \<Rightarrow>
                  (None, updatePaths availablePaths (disabledPaths(mpath := None))
                           (mfs\<lparr>fsIDs := (fsIDs mfs)(Fsid mp := None)\<rparr>)))
         | Some mp \<Rightarrow>
             (let availablePaths' = availablePaths(mpath := None);
                  msg = (if availablePaths' = Map.empty
                         then GlogErrorf ''removed the last available mountpath %s'' [AStr (String mp)]
                         else GlogInfof ''removed mountpath %s (%d remain(s) active)''
                                [AStr (String mp), AInt (int (card (dom availablePaths')))])
              in (None, updatePaths availablePaths' disabledPaths
                          (emit [IostatsRemoveMpath mpath, msg]
                             (mfs\<lparr>fsIDs := (fsIDs mfs)(Fsid mp := None)\<rparr>)))))"

text \<open>\<open>Enable\<close> returns \<open>(enabled, exists)\<close>.\<close>

definition Enable :: "os_env \<Rightarrow> string \<Rightarrow> MountedFS \<Rightarrow> (bool \<times> bool) \<times> MountedFS" where
  "Enable os mpath0 mfs =
     (let mpath = clean os mpath0;
          (availablePaths, disabledPaths) = mountpathsCopy mfs
      in case availablePaths mpath of
           Some _ \<Rightarrow> ((False, True), mfs)
         | None \<Rightarrow>
             (case disabledPaths mpath of
                Some mp \<Rightarrow>
                  ((True, True),
                   updatePaths (availablePaths(mpath \<mapsto> mp)) (disabledPaths(mpath := None))
                     (emit [IostatsAddMpath mpath (FileSystem mp)] mfs))
              | None \<Rightarrow> ((False, False), mfs)))"

text \<open>\<open>Disable\<close> returns \<open>(disabled, exists)\<close>.\<close>

definition Disable :: "os_env \<Rightarrow> string \<Rightarrow> MountedFS \<Rightarrow> (bool \<times> bool) \<times> MountedFS" where
  "Disable os mpath0 mfs =
     (let mpath = clean os mpath0;
          (availablePaths, disabledPaths) = mountpathsCopy mfs
      in case availablePaths mpath of
           Some mpathInfo \<Rightarrow>
             (let availablePaths' = availablePaths(mpath := None);
                  msg = (if availablePaths' = Map.empty
                         then GlogErrorf ''disabled the last available mountpath %s'' [AStr (String mpathInfo)]
                         else GlogInfof ''disabled mountpath %s (%d remain(s) active)''
                                [AStr (String mpathInfo), AInt (int (card (dom availablePaths')))])
              in ((True, True),
                  emit [msg]
                    (updatePaths availablePaths' (disabledPaths(mpath \<mapsto> mpathInfo))
                       (emit [IostatsRemoveMpath mpath] mfs))))
         | None \<Rightarrow>
             (case disabledPaths mpath of
                Some _ \<Rightarrow> ((False, True), mfs)
              | None \<Rightarrow> ((False, False), mfs)))"

subsection \<open>The coordinator's side of a removal (ais/fspathrgrp.go)\<close>




subsection \<open>Sequences of mountpath operations\<close>

datatype mp_op = OpAdd string | OpRemove string | OpEnable string | OpDisable string

fun apply_op :: "os_env \<Rightarrow> MountedFS \<Rightarrow> mp_op \<Rightarrow> MountedFS" where
  "apply_op os mfs (OpAdd p) = snd (Add os p mfs)"
| "apply_op os mfs (OpRemove p) = snd (Remove os p mfs)"
| "apply_op os mfs (OpEnable p) = snd (Enable os p mfs)"
| "apply_op os mfs (OpDisable p) = snd (Disable os p mfs)"

fun run_ops :: "os_env \<Rightarrow> mp_op list \<Rightarrow> MountedFS \<Rightarrow> MountedFS" where
  "run_ops os [] mfs = mfs"
| "run_ops os (x # xs) mfs = run_ops os xs (apply_op os mfs x)"






subsection \<open>Two concrete hosts\<close>

text \<open>
  \<open>os_disks\<close>: every directory exists, \<open>/a\<close> and \<open>/b\<close> are on filesystems of their
  own. \<open>os_test\<close>: the testing deployment, where all mountpaths are directories of one
  filesystem. The paths used with them are already clean, so \<open>filepath.Clean\<close>
  returns them as they are.
\<close>

definition os_disks :: os_env where
  "os_disks =
     \<lparr>clean = (\<lambda>p. p), stat_ok = (\<lambda>p. True),
      statfs = (\<lambda>p. if p = ''/a'' then Some (1, 0) else if p = ''/b'' then Some (2, 0) else Some (3, 0)),
      fqn2fs = (\<lambda>p. Some ''ext4''), digest = (\<lambda>p. 0)\<rparr>"


definition mp_on :: "Fsid \<Rightarrow> string \<Rightarrow> MountpathInfo" where
  "mp_on fsid p = \<lparr>Path = p, OrigPath = p, Fsid = fsid, FileSystem = ''ext4'', PathDigest = 0\<rparr>"

text \<open>\<open>/a\<close> and \<open>/b\<close> added, then \<open>/a\<close> disabled.\<close>

definition mfs_ab :: MountedFS where
  "mfs_ab = run_ops os_disks [OpAdd ''/a'', OpAdd ''/b'', OpDisable ''/a''] NewMountedFS"

section \<open>Package cmn: extended actions (cmn/xaction.go)\<close>

text \<open>
  Times are \<open>UnixNano\<close> values (\<open>int64\<close>); \<open>eutime = 0\<close> means "still running".
  The abort channel carries no values: it is open or closed, and closing a closed
  channel panics.
\<close>

datatype chan_state = ChanOpen | ChanClosed

datatype go_panic = CloseOfClosedChannel | AssertionFailed string

datatype xact_event = CloseAbrt | XGlogInfo string | XGlogWarning string

record XactBase =
  xid :: "64 word"
  sutime :: "64 word"
  eutime :: "64 word"
  kind :: string
  bucket :: string
  abrt :: chan_state
  aborted :: bool
  bckIsLocal :: bool

definition NewXactBase :: "64 word \<Rightarrow> string \<Rightarrow> 64 word \<Rightarrow> XactBase" where
  "NewXactBase i k stime =
     \<lparr>xid = i, sutime = stime, eutime = 0, kind = k, bucket = [], abrt = ChanOpen,
      aborted = False, bckIsLocal = False\<rparr>"

definition NewXactBaseWithBucket :: "64 word \<Rightarrow> string \<Rightarrow> string \<Rightarrow> bool \<Rightarrow> 64 word \<Rightarrow> XactBase" where
  "NewXactBaseWithBucket i k b loc stime = (NewXactBase i k stime)\<lparr>bucket := b, bckIsLocal := loc\<rparr>"

definition Finished :: "'a XactBase_scheme \<Rightarrow> bool" where
  "Finished xact = (eutime xact \<noteq> 0)"

definition Aborted :: "'a XactBase_scheme \<Rightarrow> bool" where
  "Aborted xact = aborted xact"

text \<open>\<open>EndTime(e)\<close> with an argument stores it; the log line it prints is left out.\<close>

definition EndTime :: "64 word \<Rightarrow> 'a XactBase_scheme \<Rightarrow> 'a XactBase_scheme" where
  "EndTime etime xact = xact\<lparr>eutime := etime\<rparr>"

text \<open>
  \<open>Abort\<close>: the compare-and-swap on \<open>aborted\<close> fails when the flag is already set;
  the winner stores the end time (\<open>now\<close> is \<open>time.Now().UnixNano()\<close>) and closes the
  channel. The result lists what the call did, in order.
\<close>

definition Abort ::
  "64 word \<Rightarrow> 'a XactBase_scheme \<Rightarrow> go_panic + (xact_event list \<times> 'a XactBase_scheme)" where
  "Abort now xact =
     (if aborted xact then Inr ([XGlogInfo ''already aborted: ''], xact)
      else
        (let x1 = xact\<lparr>aborted := True\<rparr>;
             x2 = x1\<lparr>eutime := now\<rparr>
         in case abrt x2 of
              ChanClosed \<Rightarrow> Inl CloseOfClosedChannel
            | ChanOpen \<Rightarrow> Inr ([CloseAbrt, XGlogInfo ''ABORT: ''], x2\<lparr>abrt := ChanClosed\<rparr>)))"

text \<open>Any number of calls of \<open>Abort\<close>, one after the other, each at its own time.\<close>

fun Abort_calls ::
  "64 word list \<Rightarrow> 'a XactBase_scheme \<Rightarrow> go_panic + (xact_event list \<times> 'a XactBase_scheme)" where
  "Abort_calls [] xact = Inr ([], xact)"
| "Abort_calls (now # nows) xact =
     (case Abort now xact of
        Inl p \<Rightarrow> Inl p
      | Inr (es, x') \<Rightarrow>
          (case Abort_calls nows x' of
             Inl p \<Rightarrow> Inl p
           | Inr (es', x'') \<Rightarrow> Inr (es @ es', x'')))"

subsection \<open>Demand xactions\<close>

text \<open>
  \<open>XactDemandBase\<close> embeds \<open>XactBase\<close> and adds the idle ticker and two atomic
  \<open>int64\<close> counters. \<open>Timeout\<close> leaves at once while work is pending; otherwise it
  decrements \<open>renew\<close> and reports whether the new value is negative.
\<close>

record XactDemandBase = XactBase +
  ticker_running :: bool
  renew :: "64 word"
  pending :: "64 word"

definition NewXactDemandBase ::
  "64 word \<Rightarrow> string \<Rightarrow> string \<Rightarrow> bool \<Rightarrow> 64 word \<Rightarrow> XactDemandBase" where
  "NewXactDemandBase i k b loc stime =
     XactBase.extend (NewXactBaseWithBucket i k b loc stime)
       (XactDemandBase.fields True 0 0)"

definition Renew :: "'a XactDemandBase_scheme \<Rightarrow> 'a XactDemandBase_scheme" where
  "Renew r = r\<lparr>renew := 1\<rparr>"

definition IncPending :: "'a XactDemandBase_scheme \<Rightarrow> 'a XactDemandBase_scheme" where
  "IncPending r = r\<lparr>pending := pending r + 1\<rparr>"

definition DecPending :: "'a XactDemandBase_scheme \<Rightarrow> 'a XactDemandBase_scheme" where
  "DecPending r = r\<lparr>pending := pending r - 1\<rparr>"

definition Pending :: "'a XactDemandBase_scheme \<Rightarrow> 64 word" where
  "Pending r = pending r"

definition Timeout :: "'a XactDemandBase_scheme \<Rightarrow> bool \<times> 'a XactDemandBase_scheme" where
  "Timeout r =
     (if 0 <s pending r then (False, r)
      else (let r' = r\<lparr>renew := renew r - 1\<rparr> in (renew r' <s 0, r')))"

definition Stop :: "'a XactDemandBase_scheme \<Rightarrow> 'a XactDemandBase_scheme" where
  "Stop r = r\<lparr>ticker_running := False\<rparr>"

text \<open>
  A history of calls on one demand xaction, and the answers its \<open>Timeout\<close> calls
  gave, oldest first.
\<close>

datatype demand_call = CallRenew | CallIncPending | CallDecPending | CallTimeout

fun demand_step :: "'a XactDemandBase_scheme \<Rightarrow> demand_call \<Rightarrow> 'a XactDemandBase_scheme" where
  "demand_step r CallRenew = Renew r"
| "demand_step r CallIncPending = IncPending r"
| "demand_step r CallDecPending = DecPending r"
| "demand_step r CallTimeout = snd (Timeout r)"

definition demand_run :: "demand_call list \<Rightarrow> 'a XactDemandBase_scheme \<Rightarrow> 'a XactDemandBase_scheme" where
  "demand_run calls r = foldl demand_step r calls"

text \<open>
  The claim's reading of the history: has \<open>Renew\<close> been called since the previous
  \<open>Timeout\<close> call (since the start, when there was none)?
\<close>

definition renewed_since_last_Timeout :: "demand_call list \<Rightarrow> bool" where
  "renewed_since_last_Timeout calls =
     (CallRenew \<in> set (takeWhile (\<lambda>c. c \<noteq> CallTimeout) (rev calls)))"

text \<open>
  What the code keeps instead: the renewal is consumed only by a \<open>Timeout\<close> call
  that found no pending work. \<open>renewal_armed\<close> follows the history with the pending
  count as an unbounded integer.
\<close>

fun demand_abs :: "int \<times> bool \<Rightarrow> demand_call \<Rightarrow> int \<times> bool" where
  "demand_abs (n, armed) CallRenew = (n, True)"
| "demand_abs (n, armed) CallIncPending = (n + 1, armed)"
| "demand_abs (n, armed) CallDecPending = (n - 1, armed)"
| "demand_abs (n, armed) CallTimeout = (if 0 < n then (n, armed) else (n, False))"

definition pending_count :: "demand_call list \<Rightarrow> int" where
  "pending_count calls = fst (foldl demand_abs (0, False) calls)"

definition renewal_armed :: "demand_call list \<Rightarrow> bool" where
  "renewal_armed calls = snd (foldl demand_abs (0, False) calls)"

text \<open>A freshly created demand xaction.\<close>

definition xact0 :: XactDemandBase where
  "xact0 = NewXactDemandBase 1 ''xactecput'' ''bck'' True 3"

text \<open>
  The counters of the code against the abstract history after \<open>k\<close> calls: the pending
  counter holds the count, and \<open>renew\<close> is 1 while the renewal is armed and
  between \<open>-k\<close> and 0 otherwise.
\<close>

definition demand_sim :: "nat \<Rightarrow> 'a XactDemandBase_scheme \<Rightarrow> int \<times> bool \<Rightarrow> bool" where
  "demand_sim k r s =
     (sint (pending r) = fst s \<and> \<bar>fst s\<bar> \<le> int k \<and>
      (if snd s then renew r = 1 else - int k \<le> sint (renew r) \<and> sint (renew r) \<le> 0))"

subsection \<open>Concurrent callers of \<open>Abort\<close>\<close>

text \<open>
  \<open>Abort\<close> is three steps on the shared xaction: the compare-and-swap on
  \<open>aborted\<close>, the store of \<open>eutime\<close>, and \<open>close(xact.abrt)\<close>. Every
  goroutine calling it has its own position in that code; a schedule names, step by
  step, the goroutine that moves and the clock it would read. A goroutine that has
  returned cannot move (\<open>None\<close>).
\<close>

datatype abort_pc = AtCAS | AtStore | AtClose | AtReturn

record abort_sys =
  shared :: XactBase
  pcs :: "nat \<Rightarrow> abort_pc"

definition abort_init :: "XactBase \<Rightarrow> abort_sys" where
  "abort_init x = \<lparr>shared = x, pcs = (\<lambda>t. AtCAS)\<rparr>"

definition abort_step ::
  "nat \<Rightarrow> 64 word \<Rightarrow> abort_sys \<Rightarrow> (go_panic + (xact_event list \<times> abort_sys)) option" where
  "abort_step t now sys =
     (case pcs sys t of
        AtCAS \<Rightarrow>
          Some (if aborted (shared sys)
                then Inr ([XGlogInfo ''already aborted: ''], sys\<lparr>pcs := (pcs sys)(t := AtReturn)\<rparr>)
                else Inr ([], sys\<lparr>shared := (shared sys)\<lparr>aborted := True\<rparr>,
                                  pcs := (pcs sys)(t := AtStore)\<rparr>))
      | AtStore \<Rightarrow>
          Some (Inr ([], sys\<lparr>shared := (shared sys)\<lparr>eutime := now\<rparr>, pcs := (pcs sys)(t := AtClose)\<rparr>))
      | AtClose \<Rightarrow>
          Some (case abrt (shared sys) of
                  ChanClosed \<Rightarrow> Inl CloseOfClosedChannel
                | ChanOpen \<Rightarrow>
                    Inr ([CloseAbrt, XGlogInfo ''ABORT: ''],
                         sys\<lparr>shared := (shared sys)\<lparr>abrt := ChanClosed\<rparr>,
                             pcs := (pcs sys)(t := AtReturn)\<rparr>))
      | AtReturn \<Rightarrow> None)"

fun abort_schedule ::
  "(nat \<times> 64 word) list \<Rightarrow> abort_sys \<Rightarrow> (go_panic + (xact_event list \<times> abort_sys)) option" where
  "abort_schedule [] sys = Some (Inr ([], sys))"
| "abort_schedule ((t, now) # rest) sys =
     (case abort_step t now sys of
        None \<Rightarrow> None
      | Some (Inl p) \<Rightarrow> Some (Inl p)
      | Some (Inr (evs, sys')) \<Rightarrow>
          (case abort_schedule rest sys' of
             None \<Rightarrow> None
           | Some (Inl p) \<Rightarrow> Some (Inl p)
           | Some (Inr (evs', sys'')) \<Rightarrow> Some (Inr (evs @ evs', sys''))))"

text \<open>
  The goroutine that won the compare-and-swap and has not closed the channel yet, and
  the invariant of the shared state: at most one such goroutine, and the channel is
  open exactly while there is one (or nobody has called yet).
\<close>

definition in_flight :: "abort_sys \<Rightarrow> nat \<Rightarrow> bool" where
  "in_flight sys t = (pcs sys t = AtStore \<or> pcs sys t = AtClose)"

definition abort_inv :: "abort_sys \<Rightarrow> bool" where
  "abort_inv sys =
     ((\<not> aborted (shared sys) \<longrightarrow> abrt (shared sys) = ChanOpen \<and> (\<forall>t. pcs sys t = AtCAS)) \<and>
      (aborted (shared sys) \<longrightarrow>
         (\<forall>t t'. in_flight sys t \<and> in_flight sys t' \<longrightarrow> t = t') \<and>
         ((\<exists>t. in_flight sys t) = (abrt (shared sys) = ChanOpen)) \<and>
         ((\<forall>t. pcs sys t \<noteq> AtStore) \<longrightarrow> eutime (shared sys) \<noteq> 0)))"

definition closed_count :: "abort_sys \<Rightarrow> nat" where
  "closed_count sys = (if abrt (shared sys) = ChanClosed then 1 else 0)"

section \<open>Package cluster: the local object metadata (LOM)\<close>

text \<open>
  The parts of \<open>cluster.LOM\<close> that the mirror and the erasure-coding manager read.
  \<open>MpathInfo\<close> is a pointer and may be nil.
\<close>

record ECConf =
  Enabled :: bool
  ObjSizeLimit :: int
  DataSlices :: int
  ParitySlices :: int

record BucketProps =
  EC :: ECConf

record parsedFQN =
  MpathInfo :: "MountpathInfo option"
  ContentType :: string

record LOM =
  FQN :: string
  Bucket :: string
  Objname :: string
  BckIsLocal :: bool
  BckProps :: BucketProps
  ParsedFQN :: parsedFQN
  size_lom :: int
  version :: string
  copyFQN :: "string list"

definition Size :: "LOM \<Rightarrow> int" where
  "Size lom = size_lom lom"

definition CopyFQN :: "LOM \<Rightarrow> string list" where
  "CopyFQN lom = copyFQN lom"

text \<open>
  Modelled from the spec: \<open>LOM.HasCopies\<close> is not among the sources; the spec has the
  copy-FQN list hold the paths of the local mirror replicas, and a LOM has copies when
  that list is not empty.
\<close>

definition HasCopies :: "LOM \<Rightarrow> bool" where
  "HasCopies lom = (copyFQN lom \<noteq> [])"

section \<open>Package mirror: the destination of a copy (mirror/utils.go)\<close>

text \<open>
  What \<open>findLeastUtilized\<close> asks of package fs: \<open>Mountpaths.FQN2Info\<close> (the
  mountpath of a parsed FQN, \<open>None\<close> when parsing fails) and
  \<open>Iostats.GetDiskUtil\<close> (a utilization, \<open>int64\<close>).
\<close>

record mirror_env =
  FQN2Info :: "string \<Rightarrow> MountpathInfo option"
  GetDiskUtil :: "string \<Rightarrow> 64 word"

text \<open>An \<open>mpather\<close> is a worker bound to one mountpath.\<close>

record mpather =
  mountpathInfo :: MountpathInfo

datatype mirror_panic = NilPointerDereference

text \<open>
  The inner loop over the copies of the LOM: true when the candidate on \<open>path\<close> is
  skipped (\<open>continue loop\<close>), because a copy FQN does not parse or because a copy
  is on that mountpath.
\<close>

fun copy_excludes :: "mirror_env \<Rightarrow> string \<Rightarrow> string list \<Rightarrow> bool" where
  "copy_excludes env path [] = False"
| "copy_excludes env path (cpyfqn # rest) =
     (case FQN2Info env cpyfqn of
        None \<Rightarrow> True
      | Some mi \<Rightarrow> if path = Path mi then True else copy_excludes env path rest)"

text \<open>
  The outer loop over the map of workers, in the order the iteration visits them,
  with the running best \<open>out\<close> and its utilization \<open>util\<close>. The error lines it logs
  are left out.
\<close>

fun findLeastUtilized_from ::
  "mirror_env \<Rightarrow> LOM \<Rightarrow> (string \<times> mpather) list \<Rightarrow> mpather option \<Rightarrow> 64 word
     \<Rightarrow> mirror_panic + (mpather option \<times> 64 word)" where
  "findLeastUtilized_from env lom [] out util = Inr (out, util)"
| "findLeastUtilized_from env lom ((k, j) # rest) out util =
     (case MpathInfo (ParsedFQN lom) of
        None \<Rightarrow> Inl NilPointerDereference
      | Some primary \<Rightarrow>
          (let mpathInfo = mountpathInfo j in
           if Path mpathInfo = Path primary then findLeastUtilized_from env lom rest out util
           else if HasCopies lom \<and> copy_excludes env (Path mpathInfo) (CopyFQN lom)
             then findLeastUtilized_from env lom rest out util
           else (let u = GetDiskUtil env (Path mpathInfo) in
                 if u <s util then findLeastUtilized_from env lom rest (Some j) u
                 else findLeastUtilized_from env lom rest out util)))"

definition findLeastUtilized ::
  "mirror_env \<Rightarrow> LOM \<Rightarrow> (string \<times> mpather) list \<Rightarrow> mirror_panic + mpather option" where
  "findLeastUtilized env lom mpathers =
     (case findLeastUtilized_from env lom mpathers None 101 of
        Inl p \<Rightarrow> Inl p
      | Inr (out, util) \<Rightarrow> Inr out)"

text \<open>
  The claim's notion of a surviving candidate: it is not on the primary's mountpath,
  and no copy of the LOM resides on its mountpath.
\<close>

definition surviving :: "mirror_env \<Rightarrow> LOM \<Rightarrow> mpather \<Rightarrow> bool" where
  "surviving env lom j =
     ((\<forall>primary. MpathInfo (ParsedFQN lom) = Some primary \<longrightarrow>
         Path (mountpathInfo j) \<noteq> Path primary) \<and>
      (\<forall>c \<in> set (CopyFQN lom). \<forall>mi. FQN2Info env c = Some mi \<longrightarrow>
         Path (mountpathInfo j) \<noteq> Path mi))"

definition copies_resolve :: "mirror_env \<Rightarrow> LOM \<Rightarrow> bool" where
  "copies_resolve env lom = (\<forall>c \<in> set (CopyFQN lom). FQN2Info env c \<noteq> None)"

text \<open>The test the loop applies to a candidate before it looks at the utilization.\<close>

definition skipped :: "mirror_env \<Rightarrow> LOM \<Rightarrow> MountpathInfo \<Rightarrow> mpather \<Rightarrow> bool" where
  "skipped env lom primary j =
     (Path (mountpathInfo j) = Path primary \<or>
      (HasCopies lom \<and> copy_excludes env (Path (mountpathInfo j)) (CopyFQN lom)))"

subsection \<open>A concrete object and its candidates\<close>

definition lom_a :: LOM where
  "lom_a =
     \<lparr>FQN = ''/a/obj/local/B/o'', Bucket = ''B'', Objname = ''o'', BckIsLocal = True,
      BckProps = \<lparr>EC = \<lparr>Enabled = True, ObjSizeLimit = 262144, DataSlices = 2, ParitySlices = 2\<rparr>\<rparr>,
      ParsedFQN = \<lparr>MpathInfo = Some (mp_on (1, 0) ''/a''), ContentType = ''obj''\<rparr>,
      size_lom = 1048576, version = ''1'', copyFQN = []\<rparr>"

definition worker :: "Fsid \<Rightarrow> string \<Rightarrow> string \<times> mpather" where
  "worker fsid p = (p, \<lparr>mountpathInfo = mp_on fsid p\<rparr>)"

text \<open>
  Utilizations: \<open>/b\<close> at 40, \<open>/c\<close> at 10, everything else at 70. A path under
  \<open>/a\<close>, \<open>/b\<close> or \<open>/c\<close> parses to that mountpath; any other path does not parse.
\<close>

definition env_util :: mirror_env where
  "env_util =
     \<lparr>FQN2Info = (\<lambda>fqn. if take 3 fqn = ''/a/'' then Some (mp_on (1, 0) ''/a'')
                        else if take 3 fqn = ''/b/'' then Some (mp_on (2, 0) ''/b'')
                        else if take 3 fqn = ''/c/'' then Some (mp_on (3, 0) ''/c'')
                        else None),
      GetDiskUtil = (\<lambda>p. if p = ''/b'' then 40 else if p = ''/c'' then 10 else 70)\<rparr>"

text \<open>
  The same object with one copy on \<open>/b\<close>, and with one copy whose mountpath is no
  longer registered, so that its FQN does not parse.
\<close>

definition lom_gone :: LOM where
  "lom_gone = lom_a\<lparr>copyFQN := [''/gone/obj/local/B/o'']\<rparr>"

definition lom_b :: LOM where
  "lom_b = lom_a\<lparr>copyFQN := [''/b/obj/local/B/o'']\<rparr>"

section \<open>Package ec: requests and the Put xaction (ec/xaction.go, ec/putxaction.go)\<close>

datatype ec_action = ActSplit | ActDelete | ActRestore

datatype ec_error =
    ErrorECDisabled
  | ErrorInsufficientTargets
  | ErrorNotFound
  | ErrOOS
  | ErrLoad string
  | ErrCopy string
  | ErrECDisabledOnBucket string
  | ErrECBeingDisabled string
  | ErrXactAborted string

text \<open>
  A request. \<open>ErrCh\<close> is the optional channel on which the requester waits for the
  outcome; channels are named by numbers, \<open>None\<close> is the nil channel.
\<close>

record Request =
  Action :: ec_action
  IsCopy :: bool
  LOM :: LOM
  ErrCh :: "nat option"
  putTime :: "64 word"
  tm :: "64 word"

datatype RequestsControlMsg = ActClearRequests | ActEnableRequests | ActUnknown nat

datatype mpathReq = ActMountpathAdd string | ActMountpathRemove string | ActMountpathOther string

text \<open>
  A per-mountpath jogger: its bounded work channel, and whether its goroutine has been
  started and stopped. The jogger's own loop is not part of this model.
\<close>

record putJogger =
  jog_mpath :: string
  workCh :: "Request list"
  jog_running :: bool
  jog_stopped :: bool

definition requestBufSizeGlobal :: nat where
  "requestBufSizeGlobal = 140"

definition requestBufSizeFS :: nat where
  "requestBufSizeFS = 70"

definition controlChSize :: nat where
  "controlChSize = 8"

text \<open>
  \<open>XactPut\<close> embeds \<open>xactECBase\<close> (a demand xaction with the bucket name) and
  \<open>xactReqBase\<close> (the three channels and the reject flag). A buffered channel is the
  list of the values it holds, oldest first.
\<close>

record XactPut = XactDemandBase +
  bckName :: string
  mpathReqCh :: "mpathReq list"
  ecCh :: "Request list"
  controlCh :: "RequestsControlMsg list"
  rejectReq :: bool
  putJoggers :: "string \<rightharpoonup> putJogger"

text \<open>
  What the xaction does to the world outside its own fields: values sent on and closes
  of error channels, statistics, and log lines.
\<close>

datatype put_event =
    ErrChSend nat ec_error
  | ErrChClose nat
  | StatsUpdateEncode int
  | StatsUpdateDelete
  | StatsUpdateQueue nat
  | PutGlogInfo string
  | PutGlogWarning string
  | PutGlogError string

definition newPutJogger :: "string \<Rightarrow> putJogger" where
  "newPutJogger p = \<lparr>jog_mpath = p, workCh = [], jog_running = False, jog_stopped = False\<rparr>"

text \<open>
  \<open>NewPutXact\<close>: one jogger per available and per disabled mountpath, none started;
  empty channels; requests accepted. The demand base it embeds is created by the
  caller.
\<close>

definition NewPutXact :: "MountedFS \<Rightarrow> XactDemandBase \<Rightarrow> string \<Rightarrow> XactPut" where
  "NewPutXact mfs base bck =
     (let (availablePaths, disabledPaths) = Get mfs
      in XactDemandBase.extend base
           (XactPut.fields bck [] [] [] False
              (\<lambda>p. if p \<in> dom availablePaths \<or> p \<in> dom disabledPaths
                    then Some (newPutJogger p) else None)))"

definition setEcRequestsDisabled :: "XactPut \<Rightarrow> XactPut" where
  "setEcRequestsDisabled r = r\<lparr>rejectReq := True\<rparr>"

definition setEcRequestsEnabled :: "XactPut \<Rightarrow> XactPut" where
  "setEcRequestsEnabled r = r\<lparr>rejectReq := False\<rparr>"

definition ecRequestsEnabled :: "XactPut \<Rightarrow> bool" where
  "ecRequestsEnabled r = (\<not> rejectReq r)"

text \<open>
  \<open>ClearRequests\<close> and \<open>EnableRequests\<close> only send on the control channel; the send
  blocks (\<open>None\<close>) while the channel is full.
\<close>

definition ClearRequests :: "XactPut \<Rightarrow> XactPut option" where
  "ClearRequests r =
     (if length (controlCh r) < controlChSize
      then Some (r\<lparr>controlCh := controlCh r @ [ActClearRequests]\<rparr>) else None)"

definition EnableRequests :: "XactPut \<Rightarrow> XactPut option" where
  "EnableRequests r =
     (if length (controlCh r) < controlChSize
      then Some (r\<lparr>controlCh := controlCh r @ [ActEnableRequests]\<rparr>) else None)"

text \<open>
  \<open>abortECRequestWhenDisabled\<close>: the error goes to the request's channel, which is
  then closed; a request without a channel is dropped silently.
\<close>

definition abortECRequestWhenDisabled :: "XactPut \<Rightarrow> Request \<Rightarrow> put_event list" where
  "abortECRequestWhenDisabled r req =
     (case ErrCh req of
        None \<Rightarrow> []
      | Some ch \<Rightarrow> [ErrChSend ch (ErrECDisabledOnBucket (bckName r)), ErrChClose ch])"

text \<open>
  \<open>dispatchDecodingRequest\<close> (called by \<open>Encode\<close> and \<open>Cleanup\<close>): reject while
  the flag is set, otherwise send on the request channel; \<open>None\<close> when that send
  blocks on a full channel.
\<close>

definition dispatchDecodingRequest :: "Request \<Rightarrow> XactPut \<Rightarrow> (put_event list \<times> XactPut) option" where
  "dispatchDecodingRequest req r =
     (if \<not> ecRequestsEnabled r then Some (abortECRequestWhenDisabled r req, r)
      else if length (ecCh r) < requestBufSizeGlobal then Some ([], r\<lparr>ecCh := ecCh r @ [req]\<rparr>)
      else None)"

definition Encode :: "64 word \<Rightarrow> Request \<Rightarrow> XactPut \<Rightarrow> (put_event list \<times> XactPut) option" where
  "Encode now req r = dispatchDecodingRequest (req\<lparr>putTime := now, tm := now\<rparr>) r"

definition Cleanup :: "64 word \<Rightarrow> Request \<Rightarrow> XactPut \<Rightarrow> (put_event list \<times> XactPut) option" where
  "Cleanup now req r = dispatchDecodingRequest (req\<lparr>putTime := now, tm := now\<rparr>) r"

text \<open>
  \<open>stop\<close>: nothing but a warning on a finished xaction; otherwise the idle ticker and
  every jogger are stopped and the end time is recorded.
\<close>

definition stop_jogger :: "putJogger \<Rightarrow> putJogger" where
  "stop_jogger jog = jog\<lparr>jog_stopped := True\<rparr>"

definition stop :: "64 word \<Rightarrow> XactPut \<Rightarrow> put_event list \<times> XactPut" where
  "stop now r =
     (if Finished r then ([PutGlogWarning ''%s - not running, nothing to do''], r)
      else
        (let r1 = Stop r;
             r2 = r1\<lparr>putJoggers := map_option stop_jogger \<circ> putJoggers r1\<rparr>
         in ([], EndTime now r2)))"

text \<open>
  \<open>dispatchRequest\<close>, called by the loop for a request it received: an error on the
  request's channel while the flag is set, otherwise the request goes to the jogger of
  its mountpath. A nil mountpath and a mountpath without a jogger panic.
\<close>

definition dispatchRequest :: "Request \<Rightarrow> XactPut \<Rightarrow> go_panic + (put_event list \<times> XactPut)" where
  "dispatchRequest req r =
     (if \<not> ecRequestsEnabled r
      then Inr ((case ErrCh req of
                   None \<Rightarrow> []
                 | Some ch \<Rightarrow> [ErrChSend ch (ErrECBeingDisabled (bckName r)), ErrChClose ch]), r)
      else if Action req = ActDelete \<or> Action req = ActSplit then
        (let r1 = IncPending r in
         case MpathInfo (ParsedFQN (LOM req)) of
           None \<Rightarrow> Inl (AssertionFailed ''nil mountpath'')
         | Some mi \<Rightarrow>
             (case putJoggers r1 (Path mi) of
                None \<Rightarrow> Inl (AssertionFailed ''Invalid mountpath given in EC request'')
              | Some jogger \<Rightarrow>
                  Inr ([StatsUpdateQueue (length (workCh jogger))],
                       r1\<lparr>putJoggers := (putJoggers r1)(Path mi \<mapsto> jogger\<lparr>workCh := workCh jogger @ [req]\<rparr>)\<rparr>)))
      else Inr ([], r))"

definition addMpath :: "string \<Rightarrow> XactPut \<Rightarrow> put_event list \<times> XactPut" where
  "addMpath p r =
     (case putJoggers r p of
        Some _ \<Rightarrow> ([PutGlogWarning ''Attempted to add already existing mountpath: %s''], r)
      | None \<Rightarrow> ([], r\<lparr>putJoggers := (putJoggers r)(p \<mapsto> (newPutJogger p)\<lparr>jog_running := True\<rparr>)\<rparr>))"

definition removeMpath :: "string \<Rightarrow> XactPut \<Rightarrow> go_panic + XactPut" where
  "removeMpath p r =
     (case putJoggers r p of
        None \<Rightarrow> Inl (AssertionFailed ''Mountpath unregister handler for EC called with invalid mountpath'')
      | Some jog \<Rightarrow> Inr (r\<lparr>putJoggers := (putJoggers r)(p := None)\<rparr>))"

subsection \<open>The loop of Run\<close>

text \<open>
  The goroutine of \<open>Run\<close>: the xaction, the time of the last request, and what
  \<open>Run\<close> returned once it has (\<open>None\<close> while the loop is running, \<open>Some None\<close> for
  nil).
\<close>

record put_run =
  run_xact :: XactPut
  lastAction :: "64 word"
  returned :: "ec_error option option"

definition Run_start :: "64 word \<Rightarrow> XactPut \<Rightarrow> put_run" where
  "Run_start now r =
     \<lparr>run_xact = r\<lparr>putJoggers := map_option (\<lambda>jog. jog\<lparr>jog_running := True\<rparr>) \<circ> putJoggers r\<rparr>,
      lastAction = now, returned = None\<rparr>"

text \<open>The cases of the \<open>select\<close>. When several are ready, Go picks one of them at random.\<close>

datatype put_case = CaseTick | CaseEcCh | CaseMpathReq | CaseCheckTimeout | CaseControl | CaseAbort

definition case_ready :: "put_case \<Rightarrow> XactPut \<Rightarrow> bool" where
  "case_ready c r =
     (case c of
        CaseTick \<Rightarrow> True
      | CaseEcCh \<Rightarrow> ecCh r \<noteq> []
      | CaseMpathReq \<Rightarrow> mpathReqCh r \<noteq> []
      | CaseCheckTimeout \<Rightarrow> ticker_running r
      | CaseControl \<Rightarrow> controlCh r \<noteq> []
      | CaseAbort \<Rightarrow> abrt r = ChanClosed)"

text \<open>
  The inner loop of the \<open>ActClearRequests\<close> branch: every request still on the
  channel is taken and failed, oldest first.
\<close>

fun drain :: "XactPut \<Rightarrow> Request list \<Rightarrow> put_event list" where
  "drain r [] = []"
| "drain r (req # reqs) = abortECRequestWhenDisabled r req @ drain r reqs"

text \<open>
  One iteration of the loop with the case the \<open>select\<close> picked, at time \<open>now\<close>;
  \<open>idleTimeout\<close> is three times the configured send-file timeout. The result is
  \<open>None\<close> when the loop is not running or the case is not ready.
\<close>

definition Run_iter ::
  "64 word \<Rightarrow> 64 word \<Rightarrow> put_case \<Rightarrow> put_run \<Rightarrow> (go_panic + (put_event list \<times> put_run)) option" where
  "Run_iter idleTimeout now c s =
     (let r = run_xact s in
      if returned s \<noteq> None \<or> \<not> case_ready c r then None
      else Some
       (case c of
          CaseTick \<Rightarrow> Inr ([PutGlogInfo ''stats''], s)
        | CaseEcCh \<Rightarrow>
            (let req = hd (ecCh r);
                 r1 = r\<lparr>ecCh := tl (ecCh r)\<rparr>;
                 ev = (case Action req of
                         ActSplit \<Rightarrow> [StatsUpdateEncode (Size (LOM req))]
                       | ActDelete \<Rightarrow> [StatsUpdateDelete]
                       | ActRestore \<Rightarrow> [PutGlogError ''Invalid request's action %s for putxaction''])
             in case dispatchRequest req r1 of
                  Inl p \<Rightarrow> Inl p
                | Inr (evs, r2) \<Rightarrow> Inr (ev @ evs, s\<lparr>run_xact := r2, lastAction := now\<rparr>))
        | CaseMpathReq \<Rightarrow>
            (let r1 = r\<lparr>mpathReqCh := tl (mpathReqCh r)\<rparr>
             in case hd (mpathReqCh r) of
                  ActMountpathAdd p \<Rightarrow>
                    (let (evs, r2) = addMpath p r1 in Inr (evs, s\<lparr>run_xact := r2\<rparr>))
                | ActMountpathRemove p \<Rightarrow>
                    (case removeMpath p r1 of
                       Inl pn \<Rightarrow> Inl pn
                     | Inr r2 \<Rightarrow> Inr ([], s\<lparr>run_xact := r2\<rparr>))
                | ActMountpathOther a \<Rightarrow> Inr ([], s\<lparr>run_xact := r1\<rparr>))
        | CaseCheckTimeout \<Rightarrow>
            (if lastAction s + idleTimeout <s now then
               (let (expired, r1) = Timeout r in
                if expired then
                  (let (evs, r2) = stop now r1 in Inr (evs, s\<lparr>run_xact := r2, returned := Some None\<rparr>))
                else Inr ([], s\<lparr>run_xact := r1\<rparr>))
             else Inr ([], s))
        | CaseControl \<Rightarrow>
            (let msg = hd (controlCh r);
                 r1 = r\<lparr>controlCh := tl (controlCh r)\<rparr>
             in case msg of
                  ActEnableRequests \<Rightarrow> Inr ([], s\<lparr>run_xact := setEcRequestsEnabled r1\<rparr>)
                | ActUnknown a \<Rightarrow> Inl (AssertionFailed ''msg.Action == ActClearRequests'')
                | ActClearRequests \<Rightarrow>
                    (let r2 = setEcRequestsDisabled r1;
                         failed = drain r2 (ecCh r2);
                         (evs, r3) = stop now (r2\<lparr>ecCh := []\<rparr>)
                     in Inr (failed @ evs, s\<lparr>run_xact := r3, returned := Some None\<rparr>)))
        | CaseAbort \<Rightarrow>
            (let (evs, r1) = stop now r
             in Inr (evs, s\<lparr>run_xact := r1, returned := Some (Some (ErrXactAborted ''%s aborted, exiting''))\<rparr>))))"

subsection \<open>Schedules\<close>

text \<open>
  What can happen to a Put xaction, one step at a time: a caller's \<open>Encode\<close>,
  \<open>Cleanup\<close>, \<open>ClearRequests\<close> or \<open>EnableRequests\<close>, or an iteration of the loop
  with the case its \<open>select\<close> picks. A schedule is a list of steps with their times.
\<close>

datatype put_step =
    DoEncode Request
  | DoCleanup Request
  | DoClearRequests
  | DoEnableRequests
  | LoopTakes put_case

definition put_exec ::
  "64 word \<Rightarrow> 64 word \<Rightarrow> put_step \<Rightarrow> put_run \<Rightarrow> (go_panic + (put_event list \<times> put_run)) option" where
  "put_exec idleTimeout now st s =
     (case st of
        DoEncode req \<Rightarrow>
          map_option (\<lambda>(evs, r). Inr (evs, s\<lparr>run_xact := r\<rparr>)) (Encode now req (run_xact s))
      | DoCleanup req \<Rightarrow>
          map_option (\<lambda>(evs, r). Inr (evs, s\<lparr>run_xact := r\<rparr>)) (Cleanup now req (run_xact s))
      | DoClearRequests \<Rightarrow> map_option (\<lambda>r. Inr ([], s\<lparr>run_xact := r\<rparr>)) (ClearRequests (run_xact s))
      | DoEnableRequests \<Rightarrow> map_option (\<lambda>r. Inr ([], s\<lparr>run_xact := r\<rparr>)) (EnableRequests (run_xact s))
      | LoopTakes c \<Rightarrow> Run_iter idleTimeout now c s)"



subsection \<open>A running Put xaction and its requests\<close>

text \<open>
  The Put xaction of bucket \<open>B\<close> on the target with \<open>/b\<close> available and \<open>/a\<close>
  disabled, started at time 10; a split request for the object on \<open>/a\<close> that
  reports on error channel \<open>ch\<close>.
\<close>

definition put0 :: put_run where
  "put0 = Run_start 10 (NewPutXact mfs_ab xact0 ''B'')"

definition req_on :: "nat \<Rightarrow> Request" where
  "req_on ch = \<lparr>Action = ActSplit, IsCopy = False, LOM = lom_a, ErrCh = Some ch, putTime = 0, tm = 0\<rparr>"




section \<open>Package ec: receiving a slice (ec/xaction.go)\<close>

text \<open>
  A pending restore registers a \<open>slice\<close> under the name of the expected sender: the
  writer that takes the data, the wait-group the restorer waits on, and what the
  receive handler stamps on it. The writer is a file or a memory buffer; the
  wait-group is its count of outstanding jobs, and \<open>Done\<close> takes one off.
\<close>

record io_writer =
  written :: "8 word list"
  is_file :: bool
  file_closed :: bool

record slice =
  sl_writer :: io_writer
  sl_wg :: int
  sl_n :: int
  sl_cksum :: "(string \<times> string) option"
  sl_version :: string

record ObjectAttrs =
  AttrSize :: int
  AttrVersion :: string
  AttrAtime :: int
  CksumType :: string
  CksumValue :: string

text \<open>
  The response body: the bytes still to be read, and the error (other than end of
  file) that reading meets after them, if any.
\<close>

record reader =
  body :: "8 word list"
  read_err :: "string option"

datatype recv_event =
    AllocFromSlab2
  | WgDone
  | DrainedBody nat
  | CopiedBody nat
  | FileClosed
  | SlabFree

text \<open>
  \<open>io.CopyBuffer\<close> into the slice's writer and into \<open>ioutil.Discard\<close>: the whole
  body is read; the count of bytes and the reader's error are returned. Writes do not
  fail in this model.
\<close>

definition CopyBuffer :: "io_writer \<Rightarrow> reader \<Rightarrow> int \<times> string option \<times> io_writer \<times> reader" where
  "CopyBuffer dst src =
     (int (length (body src)), read_err src, dst\<lparr>written := written dst @ body src\<rparr>, src\<lparr>body := []\<rparr>)"

definition CopyBuffer_Discard :: "reader \<Rightarrow> int \<times> string option \<times> reader" where
  "CopyBuffer_Discard src = (int (length (body src)), read_err src, src\<lparr>body := []\<rparr>)"

text \<open>\<open>cmn.NewCksum\<close> is not among the sources; the checksum is kept as the pair it is made from.\<close>

definition NewCksum :: "string \<Rightarrow> string \<Rightarrow> (string \<times> string) option" where
  "NewCksum ty v = Some (ty, v)"

text \<open>
  \<open>writerReceive\<close> returns the error, the slice and the reader as it leaves them, and
  what it did in program order.
\<close>

definition writerReceive ::
  "slice \<Rightarrow> bool \<Rightarrow> ObjectAttrs \<Rightarrow> reader \<Rightarrow> ec_error option \<times> slice \<times> reader \<times> recv_event list" where
  "writerReceive writer exist objAttrs rd =
     (if \<not> exist then
        (let w1 = writer\<lparr>sl_wg := sl_wg writer - 1\<rparr>;
             (nread, rerr, rd1) = CopyBuffer_Discard rd
         in (Some ErrorNotFound, w1, rd1, [AllocFromSlab2, WgDone, DrainedBody (nat nread), SlabFree]))
      else
        (let (nwritten, cerr, dst, rd1) = CopyBuffer (sl_writer writer) rd;
             w1 = writer\<lparr>sl_writer := dst, sl_n := nwritten\<rparr>;
             w2 = (if is_file (sl_writer w1)
                   then w1\<lparr>sl_writer := (sl_writer w1)\<lparr>file_closed := True\<rparr>\<rparr> else w1);
             w3 = w2\<lparr>sl_cksum := NewCksum (CksumType objAttrs) (CksumValue objAttrs)\<rparr>;
             w4 = (if sl_version w3 \<noteq> [] \<and> AttrVersion objAttrs \<noteq> []
                   then w3\<lparr>sl_version := AttrVersion objAttrs\<rparr> else w3);
             w5 = w4\<lparr>sl_wg := sl_wg w4 - 1\<rparr>
         in (map_option ErrCopy cerr, w5, rd1,
             [AllocFromSlab2, CopiedBody (nat nwritten)] @
             (if is_file (sl_writer w1) then [FileClosed] else []) @ [WgDone, SlabFree])))"

text \<open>\<open>a\<close> happens before \<open>b\<close> in a list of events: \<open>b\<close> occurs after the first \<open>a\<close>.\<close>

definition precedes :: "'a \<Rightarrow> 'a \<Rightarrow> 'a list \<Rightarrow> bool" where
  "precedes a b es = (b \<in> set (drop 1 (dropWhile (\<lambda>e. e \<noteq> a) es)))"

text \<open>A registered slice with an empty memory buffer, and a three-byte body.\<close>

definition slice0 :: slice where
  "slice0 =
     \<lparr>sl_writer = \<lparr>written = [], is_file = False, file_closed = False\<rparr>,
      sl_wg = 1, sl_n = 0, sl_cksum = None, sl_version = []\<rparr>"

definition attrs0 :: ObjectAttrs where
  "attrs0 = \<lparr>AttrSize = 0, AttrVersion = [], AttrAtime = 0, CksumType = [], CksumValue = []\<rparr>"

definition reader3 :: reader where
  "reader3 = \<lparr>body = [1, 2, 3], read_err = None\<rparr>"

section \<open>Package ais: the erasure-coding manager (ais/ecmanager.go)\<close>

text \<open>
  Modelled from the spec: \<open>ECConf.RequiredEncodeTargets\<close>,
  \<open>ECConf.RequiredRestoreTargets\<close> and \<open>ec.IsECCopy\<close> are not among the sources.
  The spec has encoding require \<open>DataSlices + ParitySlices + 1\<close> targets and restoring
  \<open>DataSlices + 1\<close>, and \<open>ec.obj_size_limit\<close> be the threshold below which an object
  is replicated instead of split.
\<close>

definition RequiredEncodeTargets :: "ECConf \<Rightarrow> int" where
  "RequiredEncodeTargets c = DataSlices c + ParitySlices c + 1"

definition RequiredRestoreTargets :: "ECConf \<Rightarrow> int" where
  "RequiredRestoreTargets c = DataSlices c + 1"

definition IsECCopy :: "int \<Rightarrow> ECConf \<Rightarrow> bool" where
  "IsECCopy sz c = (sz < ObjSizeLimit c)"

text \<open>
  The cluster map as the manager reads it: its version and what \<open>CountTargets\<close>
  returns. The bucket metadata: its version and the local buckets in the order the
  loops visit them.
\<close>

record Smap =
  Version :: "64 word"
  CountTargets :: int

record bucketMD =
  BMDVersion :: "64 word"
  LBmap :: "(string \<times> BucketProps) list"

text \<open>
  \<open>XactGet\<close> and \<open>XactRespond\<close> are not among the sources. Their states are type
  parameters; what the manager calls on a Get xaction is passed in: \<open>Finished\<close>,
  \<open>stop\<close>, a renewal by the target's registry, and \<open>Decode\<close> together with the
  answer that arrives on the request's error channel (\<open>None\<close> when none arrives).
\<close>

record 'g get_ops =
  g_Finished :: "'g \<Rightarrow> bool"
  g_stop :: "64 word \<Rightarrow> 'g \<Rightarrow> 'g"
  g_renew :: "string \<Rightarrow> 'g"
  g_Decode :: "64 word \<Rightarrow> Request \<Rightarrow> 'g \<Rightarrow> (ec_error option \<times> 'g) option"

record ('g, 'r) BckXacts =
  bx_get :: "'g option"
  bx_put :: "XactPut option"
  bx_req :: "'r option"



record ('g, 'r) ecManager =
  smap :: Smap
  targetCnt :: "32 word"
  bckMD :: bucketMD
  xacts :: "string \<rightharpoonup> ('g, 'r) BckXacts"

text \<open>\<open>getBckXacts\<close> creates the entry of a bucket that has none.\<close>

definition getBckXacts ::
  "string \<Rightarrow> ('g, 'r) ecManager \<Rightarrow> ('g, 'r) BckXacts \<times> ('g, 'r) ecManager" where
  "getBckXacts bck mgr =
     (case xacts mgr bck of
        Some xs \<Rightarrow> (xs, mgr)
      | None \<Rightarrow>
          (\<lparr>bx_get = None, bx_put = None, bx_req = None\<rparr>,
           mgr\<lparr>xacts := (xacts mgr)(bck \<mapsto> \<lparr>bx_get = None, bx_put = None, bx_req = None\<rparr>)\<rparr>))"


definition put_of :: "('g, 'r) ecManager \<Rightarrow> string \<Rightarrow> XactPut option" where
  "put_of mgr b = (case xacts mgr b of None \<Rightarrow> None | Some xs \<Rightarrow> bx_put xs)"


subsection \<open>Listening to cluster-map changes\<close>


text \<open>
  What arrives on the version channel, with the cluster map the owner holds and the
  time at that moment.
\<close>

datatype smap_msg = ChannelClosed | NewSmapVersion "64 word"

record smap_input =
  msg :: smap_msg
  owner_smap :: Smap
  at_time :: "64 word"



subsection \<open>Encoding and restoring an object\<close>

text \<open>
  A call returns, panics, or blocks on a full channel. What \<open>EncodeObject\<close> asks of
  the target: whether it is out of space, whether the file's content type may be
  processed (\<open>None\<close> for a nil spec), what \<open>lom.Load\<close> yields, and the registry's
  renewal of a Put xaction.
\<close>

datatype 'a outcome = Blocks | Panics go_panic | Returns 'a

record encode_env =
  AvgCapUsed_oos :: bool
  FileSpec_PermToProcess :: "string \<Rightarrow> bool option"
  Load :: "LOM \<Rightarrow> string + LOM"
  renewPutEC :: "string \<Rightarrow> XactPut"

definition restoreBckPutXact ::
  "encode_env \<Rightarrow> string \<Rightarrow> ('g, 'r) ecManager \<Rightarrow> XactPut \<times> ('g, 'r) ecManager" where
  "restoreBckPutXact env bck mgr =
     (let (xs, mgr1) = getBckXacts bck mgr
      in case bx_put xs of
           Some p \<Rightarrow>
             if Finished p
             then (renewPutEC env bck,
                   mgr1\<lparr>xacts := (xacts mgr1)(bck \<mapsto> xs\<lparr>bx_put := Some (renewPutEC env bck)\<rparr>)\<rparr>)
             else (p, mgr1)
         | None \<Rightarrow>
             (renewPutEC env bck,
              mgr1\<lparr>xacts := (xacts mgr1)(bck \<mapsto> xs\<lparr>bx_put := Some (renewPutEC env bck)\<rparr>)\<rparr>))"

definition restoreBckGetXact ::
  "'g get_ops \<Rightarrow> string \<Rightarrow> ('g, 'r) ecManager \<Rightarrow> 'g \<times> ('g, 'r) ecManager" where
  "restoreBckGetXact gops bck mgr =
     (let (xs, mgr1) = getBckXacts bck mgr
      in case bx_get xs of
           Some g \<Rightarrow>
             if g_Finished gops g
             then (g_renew gops bck,
                   mgr1\<lparr>xacts := (xacts mgr1)(bck \<mapsto> xs\<lparr>bx_get := Some (g_renew gops bck)\<rparr>)\<rparr>)
             else (g, mgr1)
         | None \<Rightarrow>
             (g_renew gops bck,
              mgr1\<lparr>xacts := (xacts mgr1)(bck \<mapsto> xs\<lparr>bx_get := Some (g_renew gops bck)\<rparr>)\<rparr>))"

text \<open>
  \<open>EncodeObject\<close> returns its error (\<open>None\<close> for nil), the LOM as the call leaves it
  and the manager. The target count is the cached \<open>int32\<close>. An object small enough to
  be replicated passes the target check.
\<close>

definition EncodeObject ::
  "encode_env \<Rightarrow> 64 word \<Rightarrow> LOM \<Rightarrow> ('g, 'r) ecManager
     \<Rightarrow> (ec_error option \<times> LOM \<times> ('g, 'r) ecManager) outcome" where
  "EncodeObject env now lom mgr =
     (if \<not> Enabled (EC (BckProps lom)) then Returns (Some ErrorECDisabled, lom, mgr)
      else
        (let isECCopy = IsECCopy (Size lom) (EC (BckProps lom));
             cnt = targetCnt mgr;
             required = RequiredEncodeTargets (EC (BckProps lom))
         in if \<not> isECCopy \<and> sint cnt < required
            then Returns (Some ErrorInsufficientTargets, lom, mgr)
            else if FQN lom = [] then Panics (AssertionFailed ''lom.FQN'')
            else if (case MpathInfo (ParsedFQN lom) of None \<Rightarrow> True | Some mi \<Rightarrow> Path mi = [])
              then Panics (AssertionFailed ''lom.ParsedFQN.MpathInfo'')
            else if AvgCapUsed_oos env then Returns (Some ErrOOS, lom, mgr)
            else if FileSpec_PermToProcess env (FQN lom) = Some False then Returns (None, lom, mgr)
            else
              (case Load env lom of
                 Inl errstr \<Rightarrow> Returns (Some (ErrLoad errstr), lom, mgr)
               | Inr lom1 \<Rightarrow>
                   (let rq = \<lparr>Action = ActSplit, IsCopy = IsECCopy (Size lom) (EC (BckProps lom)),
                              LOM = lom1, ErrCh = None, putTime = 0, tm = 0\<rparr>;
                        (p, mgr1) = restoreBckPutXact env (Bucket lom1) mgr
                    in case Encode now rq p of
                         None \<Rightarrow> Blocks
                       | Some (evs, p1) \<Rightarrow>
                           (case xacts mgr1 (Bucket lom1) of
                              None \<Rightarrow> Returns (None, lom1, mgr1)
                            | Some xs \<Rightarrow>
                                Returns (None, lom1,
                                  mgr1\<lparr>xacts := (xacts mgr1)(Bucket lom1 \<mapsto> xs\<lparr>bx_put := Some p1\<rparr>)\<rparr>))))))"

text \<open>
  \<open>RestoreObject\<close> waits for the Get xaction's answer on the error channel of its
  request and returns it.
\<close>

definition RestoreObject ::
  "'g get_ops \<Rightarrow> 64 word \<Rightarrow> nat \<Rightarrow> LOM \<Rightarrow> ('g, 'r) ecManager
     \<Rightarrow> (ec_error option \<times> LOM \<times> ('g, 'r) ecManager) outcome" where
  "RestoreObject gops now ch lom mgr =
     (if \<not> Enabled (EC (BckProps lom)) then Returns (Some ErrorECDisabled, lom, mgr)
      else
        (let cnt = targetCnt mgr;
             required = RequiredRestoreTargets (EC (BckProps lom))
         in if sint cnt < required then Returns (Some ErrorInsufficientTargets, lom, mgr)
            else if (case MpathInfo (ParsedFQN lom) of None \<Rightarrow> True | Some mi \<Rightarrow> Path mi = [])
              then Panics (AssertionFailed ''lom.ParsedFQN.MpathInfo'')
            else
              (let rq = \<lparr>Action = ActRestore, IsCopy = False, LOM = lom, ErrCh = Some ch,
                         putTime = 0, tm = 0\<rparr>;
                   (g, mgr1) = restoreBckGetXact gops (Bucket lom) mgr
               in case g_Decode gops now rq g of
                    None \<Rightarrow> Blocks
                  | Some (err, g1) \<Rightarrow>
                      (case xacts mgr1 (Bucket lom) of
                         None \<Rightarrow> Returns (err, lom, mgr1)
                       | Some xs \<Rightarrow>
                           Returns (err, lom,
                             mgr1\<lparr>xacts := (xacts mgr1)(Bucket lom \<mapsto> xs\<lparr>bx_get := Some g1\<rparr>)\<rparr>)))))"




subsection \<open>A manager with one bucket\<close>

text \<open>
  A Get xaction reduced to whether it has finished. Bucket \<open>B\<close> with two data and
  two parity slices, its Put xaction running, on a cluster of six targets that shrinks
  to two; a target that is not out of space; the object of 1 MiB and a small one of
  1000 bytes, below the size limit.
\<close>

definition gops_b :: "bool get_ops" where
  "gops_b = \<lparr>g_Finished = (\<lambda>g. g), g_stop = (\<lambda>now g. True), g_renew = (\<lambda>b. False),
              g_Decode = (\<lambda>now rq g. Some (None, g))\<rparr>"

definition mgr_B :: "(bool, unit) ecManager" where
  "mgr_B =
     \<lparr>smap = \<lparr>Version = 1, CountTargets = 6\<rparr>, targetCnt = 6,
      bckMD = \<lparr>BMDVersion = 1, LBmap = [(''B'', BckProps lom_a)]\<rparr>,
      xacts = [''B'' \<mapsto> \<lparr>bx_get = Some False, bx_put = Some (run_xact put0), bx_req = Some ()\<rparr>]\<rparr>"



definition env_ok :: encode_env where
  "env_ok = \<lparr>AvgCapUsed_oos = False, FileSpec_PermToProcess = (\<lambda>fqn. Some True),
              Load = (\<lambda>lom. Inr lom), renewPutEC = (\<lambda>b. NewPutXact mfs_ab xact0 b)\<rparr>"

definition lom_small :: LOM where
  "lom_small = lom_a\<lparr>size_lom := 1000\<rparr>"

section \<open>Properties of the mountpath manager\<close>

lemma Get_updatePaths: "Get (updatePaths a d mfs) = (a, d)"
  by (simp add: Get_def updatePaths_def)

lemma Get_emit: "Get (emit es mfs) = Get mfs"
  by (simp add: Get_def emit_def)









text \<open>Unfolding the operations on a concrete state.\<close>

lemmas fs_eval = Add_def Remove_def Enable_def Disable_def mountpathsCopy_def Get_def updatePaths_def
  emit_def newMountpath_def NewMountedFS_def DisableFsIDCheck_def LocalBs_def CloudBs_def separator_def
  HasSuffix_def Let_def

lemma Get_mfs_ab: "Get mfs_ab = ([''/b'' \<mapsto> mp_on (2, 0) ''/b''], [''/a'' \<mapsto> mp_on (1, 0) ''/a''])"
  by (simp add: mfs_ab_def fs_eval os_disks_def mp_on_def)

subsection \<open>The three branches of Remove\<close>






text \<open>
  Claim C8. \<open>Enable\<close> on a path of the available map returns \<open>(false, true)\<close> and
  changes nothing; on a path that only the disabled map holds it returns
  \<open>(true, true)\<close> and publishes the maps with the entry moved to available; on a
  path in neither map it returns \<open>(false, false)\<close> and changes nothing.
\<close>

theorem Enable_idempotent:
  assumes "Get mfs = (a, d)" and "p = clean os mpath"
  shows "(p \<in> dom a \<longrightarrow> Enable os mpath mfs = ((False, True), mfs)) \<and>
         (p \<notin> dom a \<and> d p = Some mp \<longrightarrow>
            fst (Enable os mpath mfs) = (True, True) \<and>
            Get (snd (Enable os mpath mfs)) = (a(p \<mapsto> mp), d(p := None))) \<and>
         (p \<notin> dom a \<and> p \<notin> dom d \<longrightarrow> Enable os mpath mfs = ((False, False), mfs))"
  using assms
  by (auto simp: Enable_def mountpathsCopy_def Get_updatePaths Get_emit Let_def split: option.splits)

theorem Enable_idempotent_witness:
  "Enable os_disks ''/b'' mfs_ab = ((False, True), mfs_ab) \<and>
   fst (Enable os_disks ''/a'' mfs_ab) = (True, True) \<and>
   Get (snd (Enable os_disks ''/a'' mfs_ab)) =
     ([''/b'' \<mapsto> mp_on (2, 0) ''/b'', ''/a'' \<mapsto> mp_on (1, 0) ''/a''], Map.empty) \<and>
   Enable os_disks ''/c'' mfs_ab = ((False, False), mfs_ab)"
proof -
  have c: "''/c'' = clean os_disks ''/c''" and a: "''/a'' = clean os_disks ''/a''"
    and b: "''/b'' = clean os_disks ''/b''"
    by (simp_all add: os_disks_def)
  show ?thesis
    using Enable_idempotent [OF Get_mfs_ab c, of "mp_on (1, 0) ''/a''"]
      Enable_idempotent [OF Get_mfs_ab a, of "mp_on (1, 0) ''/a''"]
      Enable_idempotent [OF Get_mfs_ab b, of "mp_on (1, 0) ''/a''"]
    by simp
qed

subsection \<open>The invariant of the mountpath manager\<close>

















section \<open>Properties of extended actions\<close>

lemma Abort_calls_aborted:
  "aborted xact \<Longrightarrow>
   Abort_calls nows xact = Inr (replicate (length nows) (XGlogInfo ''already aborted: ''), xact)"
  by (induction nows) (simp_all add: Abort_def)

text \<open>
  Claim C9. On an xaction that has not been aborted, any number of \<open>Abort\<close> calls
  (one or more) never panics and closes the abort channel exactly once: the first call
  wins the compare-and-swap, stores the end time and closes the channel, every later
  call finds the flag set and only logs. The state after all calls is the state after
  the first, and with a non-zero clock reading the xaction is \<open>Finished\<close>.
\<close>

theorem Abort_closes_once:
  assumes "\<not> aborted xact" and "abrt xact = ChanOpen"
  shows "\<exists>es. Abort_calls (now # nows) xact =
              Inr (es, xact\<lparr>aborted := True, eutime := now, abrt := ChanClosed\<rparr>) \<and>
            count_list es CloseAbrt = 1 \<and>
            (now \<noteq> 0 \<longrightarrow> Finished (xact\<lparr>aborted := True, eutime := now, abrt := ChanClosed\<rparr>))"
proof -
  have first: "Abort now xact =
      Inr ([CloseAbrt, XGlogInfo ''ABORT: ''], xact\<lparr>aborted := True, eutime := now, abrt := ChanClosed\<rparr>)"
    using assms by (simp add: Abort_def)
  have cnt: "count_list (replicate n (XGlogInfo ''already aborted: '')) CloseAbrt = 0" for n
    by (induction n) simp_all
  show ?thesis
    by (simp add: first Abort_calls_aborted cnt Finished_def)
qed

text \<open>Three calls on a new xaction, at times 5, 9 and 12.\<close>

theorem Abort_closes_once_witness:
  "\<exists>es. Abort_calls [5, 9, 12] (NewXactBase 1 ''lru'' 3) =
          Inr (es, (NewXactBase 1 ''lru'' 3)\<lparr>aborted := True, eutime := 5, abrt := ChanClosed\<rparr>) \<and>
        count_list es CloseAbrt = 1 \<and>
        Finished ((NewXactBase 1 ''lru'' 3)\<lparr>aborted := True, eutime := 5, abrt := ChanClosed\<rparr>)"
proof -
  have a: "\<not> aborted (NewXactBase 1 ''lru'' 3)" and b: "abrt (NewXactBase 1 ''lru'' 3) = ChanOpen"
    by (simp_all add: NewXactBase_def)
  show ?thesis
    using Abort_closes_once [OF a b, of 5 "[9, 12]"] by simp
qed

subsection \<open>The idle check of a demand xaction\<close>



lemma sint_plus1:
  fixes x :: "64 word"
  assumes "sint x < 2 ^ 63 - 1"
  shows "sint (x + 1) = sint x + 1"
proof -
  have "- (2 ^ 63) \<le> sint x" using sint_ge [of x] by simp
  with assms show ?thesis
    by (simp add: sint_word_add signed_take_bit_int_eq_self)
qed

lemma sint_minus1:
  fixes x :: "64 word"
  assumes "- (2 ^ 63) < sint x"
  shows "sint (x - 1) = sint x - 1"
proof -
  have "sint x < 2 ^ 63" using sint_lt [of x] by simp
  with assms show ?thesis
    by (simp add: sint_word_diff signed_take_bit_int_eq_self)
qed


lemma sless_zero_left: "(0 <s (x :: 64 word)) = (0 < sint x)"
  by (simp add: word_sless_alt)

lemma sless_zero_right: "((x :: 64 word) <s 0) = (sint x < 0)"
  by (simp add: word_sless_alt)

lemma demand_sim_step:
  assumes sim: "demand_sim k r s" and k: "int k < 2 ^ 63 - 1"
  shows "demand_sim (Suc k) (demand_step r c) (demand_abs s c)"
proof -
  obtain n armed where s: "s = (n, armed)" by (cases s)
  from sim s have p: "sint (pending r) = n" and n: "\<bar>n\<bar> \<le> int k"
    and a: "armed \<Longrightarrow> renew r = 1"
    and na: "\<not> armed \<Longrightarrow> - int k \<le> sint (renew r) \<and> sint (renew r) \<le> 0"
    by (auto simp: demand_sim_def split: if_splits)
  show ?thesis
  proof (cases c)
    case CallRenew
    with p n show ?thesis by (simp add: s demand_sim_def Renew_def)
  next
    case CallIncPending
    have "sint (pending r + 1) = n + 1"
      using sint_plus1 [of "pending r"] p n k by simp
    with n a na CallIncPending show ?thesis
      by (auto simp: s demand_sim_def IncPending_def)
  next
    case CallDecPending
    have "sint (pending r - 1) = n - 1"
      using sint_minus1 [of "pending r"] p n k by simp
    with n a na CallDecPending show ?thesis
      by (auto simp: s demand_sim_def DecPending_def)
  next
    case CallTimeout
    show ?thesis
    proof (cases "0 < n")
      case True
      with p n a na CallTimeout show ?thesis
        by (auto simp: s demand_sim_def Timeout_def sless_zero_left)
    next
      case False
      note pos = this
      show ?thesis
      proof (cases armed)
        case True
        with pos p n a CallTimeout show ?thesis
          by (simp add: s demand_sim_def Timeout_def sless_zero_left Let_def)
      next
        case False
        have "sint (renew r - 1) = sint (renew r) - 1"
          using sint_minus1 [of "renew r"] na [OF False] k by simp
        with False pos p n na CallTimeout show ?thesis
          by (simp add: s demand_sim_def Timeout_def sless_zero_left Let_def)
      qed
    qed
  qed
qed

lemma demand_sim_run:
  assumes "renew r = 0" and "pending r = 0" and "int (length calls) < 2 ^ 63"
  shows "demand_sim (length calls) (demand_run calls r) (foldl demand_abs (0, False) calls)"
  using assms(3)
proof (induction calls rule: rev_induct)
  case Nil
  with assms(1,2) show ?case by (simp add: demand_sim_def demand_run_def)
next
  case (snoc c calls)
  then have "demand_sim (length calls) (demand_run calls r) (foldl demand_abs (0, False) calls)"
    and "int (length calls) < 2 ^ 63 - 1"
    by simp_all
  from demand_sim_step [OF this, of c] show ?case
    by (simp add: demand_run_def)
qed

lemma demand_sim_Timeout:
  assumes "demand_sim k r s" and "int k < 2 ^ 63"
  shows "fst (Timeout r) = (fst s \<le> 0 \<and> \<not> snd s)"
proof -
  obtain n armed where s: "s = (n, armed)" by (cases s)
  from assms(1) s have p: "sint (pending r) = n"
    and a: "armed \<Longrightarrow> renew r = 1"
    and na: "\<not> armed \<Longrightarrow> - int k \<le> sint (renew r) \<and> sint (renew r) \<le> 0"
    by (auto simp: demand_sim_def split: if_splits)
  show ?thesis
  proof (cases armed)
    case True
    with p a show ?thesis
      by (simp add: s Timeout_def sless_zero_left sless_zero_right Let_def)
  next
    case False
    have "sint (renew r - 1) = sint (renew r) - 1"
      using sint_minus1 [of "renew r"] na [OF False] assms(2) by simp
    with False p na show ?thesis
      by (simp add: s Timeout_def sless_zero_left sless_zero_right Let_def)
  qed
qed

text \<open>
  Claim C5, as amended. On a new demand xaction and after any history of calls (short
  of the \<open>2^63\<close> calls that would wrap a counter), the pending counter is the
  number of \<open>IncPending\<close> minus the number of \<open>DecPending\<close> calls, and
  \<open>Timeout\<close> returns true exactly when that count is not positive and no renewal
  is armed: \<open>Renew\<close> arms it, and only a \<open>Timeout\<close> call that found no pending
  work disarms it.
\<close>

theorem Timeout_iff_idle_and_not_armed:
  assumes "renew r = 0" and "pending r = 0" and "int (length calls) < 2 ^ 63"
  shows "sint (pending (demand_run calls r)) = pending_count calls \<and>
         fst (Timeout (demand_run calls r)) = (pending_count calls \<le> 0 \<and> \<not> renewal_armed calls)"
  using demand_sim_run [OF assms] demand_sim_Timeout [OF demand_sim_run [OF assms] assms(3)]
  by (simp add: demand_sim_def pending_count_def renewal_armed_def)

lemmas demand_eval = demand_run_def Renew_def IncPending_def DecPending_def Timeout_def Let_def
  xact0_def NewXactDemandBase_def NewXactBaseWithBucket_def NewXactBase_def XactBase.extend_def
  XactDemandBase.fields_def word_sless_alt

text \<open>
  Claim C5 as stated fails in both directions. After \<open>Renew\<close>, \<open>IncPending\<close>,
  \<open>Timeout\<close> (false: work is pending) and \<open>DecPending\<close>, the counter is 0 and
  \<open>Renew\<close> has not been called since the previous \<open>Timeout\<close>, yet \<open>Timeout\<close>
  returns false: the earlier check left the renewal in place. And after a lone
  \<open>DecPending\<close> the counter is \<open>-1\<close>, not 0, yet \<open>Timeout\<close> returns true.
\<close>

theorem Timeout_counterexample:
  "fst (Timeout (demand_run [CallRenew, CallIncPending, CallTimeout, CallDecPending] xact0)) = False \<and>
   pending (demand_run [CallRenew, CallIncPending, CallTimeout, CallDecPending] xact0) = 0 \<and>
   \<not> renewed_since_last_Timeout [CallRenew, CallIncPending, CallTimeout, CallDecPending] \<and>
   fst (Timeout (demand_run [CallDecPending] xact0)) = True \<and>
   pending (demand_run [CallDecPending] xact0) \<noteq> 0"
  by (simp add: demand_eval renewed_since_last_Timeout_def)

theorem Timeout_iff_idle_and_not_armed_witness:
  "fst (Timeout (demand_run [CallRenew, CallIncPending, CallTimeout, CallDecPending] xact0)) = False \<and>
   renewal_armed [CallRenew, CallIncPending, CallTimeout, CallDecPending] \<and>
   fst (Timeout (demand_run [CallRenew, CallTimeout] xact0)) = True"
proof -
  have a: "renew xact0 = 0" and b: "pending xact0 = 0"
    by (simp_all add: demand_eval)
  have c: "int (length [CallRenew, CallIncPending, CallTimeout, CallDecPending]) < 2 ^ 63"
    and d: "int (length [CallRenew, CallTimeout]) < 2 ^ 63"
    by simp_all
  show ?thesis
    using Timeout_iff_idle_and_not_armed [OF a b c] Timeout_iff_idle_and_not_armed [OF a b d]
    by (simp add: pending_count_def renewal_armed_def)
qed

subsection \<open>Concurrent callers of \<open>Abort\<close>\<close>

lemma abort_inv_loser:
  assumes inv: "abort_inv sys" and pc: "pcs sys t = AtCAS" and ab: "aborted (shared sys)"
  shows "abort_inv (sys\<lparr>pcs := (pcs sys)(t := AtReturn)\<rparr>)"
proof -
  let ?sys = "sys\<lparr>pcs := (pcs sys)(t := AtReturn)\<rparr>"
  have f: "in_flight ?sys u = in_flight sys u" for u
    using pc by (simp add: in_flight_def)
  have s: "(pcs ?sys u = AtStore) = (pcs sys u = AtStore)" for u
    using pc by simp
  from inv ab show ?thesis
    unfolding abort_inv_def f s by simp
qed

lemma abort_inv_winner:
  assumes inv: "abort_inv sys" and pc: "pcs sys t = AtCAS" and ab: "\<not> aborted (shared sys)"
  shows "abort_inv (sys\<lparr>shared := (shared sys)\<lparr>aborted := True\<rparr>, pcs := (pcs sys)(t := AtStore)\<rparr>)"
proof -
  let ?sys = "sys\<lparr>shared := (shared sys)\<lparr>aborted := True\<rparr>, pcs := (pcs sys)(t := AtStore)\<rparr>"
  from inv ab have all: "\<And>u. pcs sys u = AtCAS" and op: "abrt (shared sys) = ChanOpen"
    by (simp_all add: abort_inv_def)
  have f: "in_flight ?sys u = (u = t)" for u
    using all [of u] by (cases "u = t") (simp_all add: in_flight_def)
  have "pcs ?sys t = AtStore" by simp
  then have st: "\<not> (\<forall>u. pcs ?sys u \<noteq> AtStore)" by blast
  have a: "aborted (shared ?sys)" and o: "abrt (shared ?sys) = ChanOpen"
    using op by simp_all
  show ?thesis
    unfolding abort_inv_def f using st a o by blast
qed

lemma abort_inv_store:
  assumes inv: "abort_inv sys" and pc: "pcs sys t = AtStore" and now: "now \<noteq> 0"
  shows "abort_inv (sys\<lparr>shared := (shared sys)\<lparr>eutime := now\<rparr>, pcs := (pcs sys)(t := AtClose)\<rparr>)"
proof -
  let ?sys = "sys\<lparr>shared := (shared sys)\<lparr>eutime := now\<rparr>, pcs := (pcs sys)(t := AtClose)\<rparr>"
  from inv pc have ab: "aborted (shared sys)" by (auto simp: abort_inv_def)
  have ft: "in_flight sys t" using pc by (simp add: in_flight_def)
  from inv ab have uniq: "\<And>u u'. in_flight sys u \<Longrightarrow> in_flight sys u' \<Longrightarrow> u = u'"
    and op: "(\<exists>u. in_flight sys u) = (abrt (shared sys) = ChanOpen)"
    by (simp_all add: abort_inv_def)
  have f: "in_flight ?sys u = (u = t)" for u
  proof (cases "u = t")
    case True
    then show ?thesis by (simp add: in_flight_def)
  next
    case False
    then have "in_flight ?sys u = in_flight sys u" by (simp add: in_flight_def)
    with False uniq [OF ft, of u] show ?thesis by blast
  qed
  from op ft have o: "abrt (shared ?sys) = ChanOpen" by auto
  have a: "aborted (shared ?sys)" using ab by simp
  have e: "eutime (shared ?sys) \<noteq> 0" using now by simp
  show ?thesis
    unfolding abort_inv_def f using o a e by blast
qed

lemma abort_inv_close:
  assumes inv: "abort_inv sys" and pc: "pcs sys t = AtClose"
  shows "abrt (shared sys) = ChanOpen \<and>
         abort_inv (sys\<lparr>shared := (shared sys)\<lparr>abrt := ChanClosed\<rparr>, pcs := (pcs sys)(t := AtReturn)\<rparr>)"
proof -
  let ?sys = "sys\<lparr>shared := (shared sys)\<lparr>abrt := ChanClosed\<rparr>, pcs := (pcs sys)(t := AtReturn)\<rparr>"
  from inv pc have ab: "aborted (shared sys)" by (auto simp: abort_inv_def)
  have ft: "in_flight sys t" using pc by (simp add: in_flight_def)
  from inv ab have uniq: "\<And>u u'. in_flight sys u \<Longrightarrow> in_flight sys u' \<Longrightarrow> u = u'"
    and op: "(\<exists>u. in_flight sys u) = (abrt (shared sys) = ChanOpen)"
    and eu: "(\<forall>u. pcs sys u \<noteq> AtStore) \<longrightarrow> eutime (shared sys) \<noteq> 0"
    by (simp_all add: abort_inv_def)
  have f: "\<not> in_flight ?sys u" for u
  proof (cases "u = t")
    case True
    then show ?thesis by (simp add: in_flight_def)
  next
    case False
    then have "in_flight ?sys u = in_flight sys u" by (simp add: in_flight_def)
    with False uniq [OF ft, of u] show ?thesis by blast
  qed
  have ns: "pcs sys u \<noteq> AtStore" for u
  proof
    assume s: "pcs sys u = AtStore"
    then have "in_flight sys u" by (simp add: in_flight_def)
    from uniq [OF ft this] s pc show False by simp
  qed
  with eu have e: "eutime (shared ?sys) \<noteq> 0" by simp
  from op ft have o: "abrt (shared sys) = ChanOpen" by blast
  have a: "aborted (shared ?sys)" using ab by simp
  have c: "abrt (shared ?sys) \<noteq> ChanOpen" by simp
  have "abort_inv ?sys"
    unfolding abort_inv_def using a f e c by blast
  with o show ?thesis by simp
qed

lemma abort_step_inv:
  assumes inv: "abort_inv sys" and now: "now \<noteq> 0" and st: "abort_step t now sys = Some res"
  shows "\<exists>evs sys'. res = Inr (evs, sys') \<and> abort_inv sys' \<and>
           closed_count sys' = closed_count sys + count_list evs CloseAbrt"
proof (cases "pcs sys t")
  case AtCAS
  show ?thesis
  proof (cases "aborted (shared sys)")
    case True
    from st AtCAS True have "res = Inr ([XGlogInfo ''already aborted: ''], sys\<lparr>pcs := (pcs sys)(t := AtReturn)\<rparr>)"
      by (simp add: abort_step_def)
    with abort_inv_loser [OF inv AtCAS True] show ?thesis
      by (simp add: closed_count_def)
  next
    case False
    from st AtCAS False have "res = Inr ([], sys\<lparr>shared := (shared sys)\<lparr>aborted := True\<rparr>,
        pcs := (pcs sys)(t := AtStore)\<rparr>)"
      by (simp add: abort_step_def)
    with abort_inv_winner [OF inv AtCAS False] show ?thesis
      by (simp add: closed_count_def)
  qed
next
  case AtStore
  from st AtStore have "res = Inr ([], sys\<lparr>shared := (shared sys)\<lparr>eutime := now\<rparr>,
      pcs := (pcs sys)(t := AtClose)\<rparr>)"
    by (simp add: abort_step_def)
  with abort_inv_store [OF inv AtStore now] show ?thesis
    by (simp add: closed_count_def)
next
  case AtClose
  from abort_inv_close [OF inv AtClose] have o: "abrt (shared sys) = ChanOpen"
    and i: "abort_inv (sys\<lparr>shared := (shared sys)\<lparr>abrt := ChanClosed\<rparr>, pcs := (pcs sys)(t := AtReturn)\<rparr>)"
    by simp_all
  from st AtClose o have "res = Inr ([CloseAbrt, XGlogInfo ''ABORT: ''],
      sys\<lparr>shared := (shared sys)\<lparr>abrt := ChanClosed\<rparr>, pcs := (pcs sys)(t := AtReturn)\<rparr>)"
    by (simp add: abort_step_def)
  with i o show ?thesis
    by (simp add: closed_count_def)
next
  case AtReturn
  with st show ?thesis by (simp add: abort_step_def)
qed

lemma abort_schedule_inv:
  assumes "abort_inv sys" and "\<forall>x \<in> set sched. snd x \<noteq> 0" and "abort_schedule sched sys = Some res"
  shows "\<exists>evs sys'. res = Inr (evs, sys') \<and> abort_inv sys' \<and>
           closed_count sys' = closed_count sys + count_list evs CloseAbrt"
  using assms
proof (induction sched arbitrary: sys res)
  case Nil
  then show ?case by auto
next
  case (Cons x sched)
  obtain t now where x: "x = (t, now)" by (cases x)
  from Cons.prems(2) have now: "now \<noteq> 0" and rest: "\<forall>x \<in> set sched. snd x \<noteq> 0"
    by (simp_all add: x)
  from Cons.prems(3) obtain r1 where e: "abort_step t now sys = Some r1"
    by (auto simp: x split: option.splits)
  from abort_step_inv [OF Cons.prems(1) now e] obtain evs1 s1 where
    r1: "r1 = Inr (evs1, s1)" and i1: "abort_inv s1"
    and c1: "closed_count s1 = closed_count sys + count_list evs1 CloseAbrt" by blast
  from Cons.prems(3) e r1 obtain r2 where e2: "abort_schedule sched s1 = Some r2"
    by (auto simp: x split: option.splits)
  from Cons.IH [OF i1 rest e2] obtain evs2 s2 where
    r2: "r2 = Inr (evs2, s2)" and i2: "abort_inv s2"
    and c2: "closed_count s2 = closed_count s1 + count_list evs2 CloseAbrt" by blast
  from Cons.prems(3) e r1 e2 r2 have "res = Inr (evs1 @ evs2, s2)" by (simp add: x)
  with i2 c1 c2 show ?case by simp
qed

text \<open>
  Whatever the interleaving of the callers' steps, \<open>Abort\<close> on a new xaction never
  closes a closed channel, the channel is closed at most once, and once some caller has
  returned and no caller is between its steps it has been closed exactly once and the
  xaction is \<open>Finished\<close>.
\<close>

lemma Abort_interleaved_closes_once:
  assumes fresh: "\<not> aborted x \<and> abrt x = ChanOpen"
    and clock: "\<forall>c \<in> set sched. snd c \<noteq> 0"
    and run: "abort_schedule sched (abort_init x) = Some res"
  shows "\<exists>evs sys. res = Inr (evs, sys) \<and> count_list evs CloseAbrt \<le> 1 \<and>
           ((\<exists>t. pcs sys t = AtReturn) \<and> (\<forall>t. pcs sys t = AtCAS \<or> pcs sys t = AtReturn) \<longrightarrow>
              count_list evs CloseAbrt = 1 \<and> abrt (shared sys) = ChanClosed \<and>
              Finished (shared sys))"
proof -
  from fresh have i0: "abort_inv (abort_init x)"
    by (simp add: abort_inv_def abort_init_def)
  from fresh have c0: "closed_count (abort_init x) = 0"
    by (simp add: closed_count_def abort_init_def)
  from abort_schedule_inv [OF i0 clock run] c0 obtain evs sys where
    r: "res = Inr (evs, sys)" and i: "abort_inv sys"
    and c: "closed_count sys = count_list evs CloseAbrt" by auto
  have le: "count_list evs CloseAbrt \<le> 1"
    using c by (simp add: closed_count_def split: if_splits)
  have q: "count_list evs CloseAbrt = 1 \<and> abrt (shared sys) = ChanClosed \<and> Finished (shared sys)"
    if h: "(\<exists>t. pcs sys t = AtReturn) \<and> (\<forall>t. pcs sys t = AtCAS \<or> pcs sys t = AtReturn)"
  proof -
    from h i have ab: "aborted (shared sys)"
      by (auto simp: abort_inv_def)
    have pc: "pcs sys t \<noteq> AtStore \<and> pcs sys t \<noteq> AtClose" for t
      using h by (metis abort_pc.distinct(1,3,9,11))
    then have nf: "\<not> (\<exists>t. in_flight sys t)" and ns: "\<forall>t. pcs sys t \<noteq> AtStore"
      by (simp_all add: in_flight_def)
    from i ab have "(\<exists>t. in_flight sys t) = (abrt (shared sys) = ChanOpen)"
      and "(\<forall>t. pcs sys t \<noteq> AtStore) \<longrightarrow> eutime (shared sys) \<noteq> 0"
      by (simp_all add: abort_inv_def)
    with nf ns have "abrt (shared sys) = ChanClosed" and "eutime (shared sys) \<noteq> 0"
      by (auto intro: chan_state.exhaust)
    with c show ?thesis by (simp add: closed_count_def Finished_def)
  qed
  from r le q show ?thesis by blast
qed

section \<open>Properties of the mirror's choice of a destination\<close>

lemma copy_excludes_iff:
  "copy_excludes env path cs =
     (\<exists>c \<in> set cs. FQN2Info env c = None \<or> (\<exists>mi. FQN2Info env c = Some mi \<and> path = Path mi))"
  by (induction cs) (auto split: option.splits)

lemma not_skipped_surviving:
  assumes "MpathInfo (ParsedFQN lom) = Some primary" and "\<not> skipped env lom primary j"
  shows "surviving env lom j \<and> copies_resolve env lom"
  using assms
  by (auto simp: skipped_def surviving_def copies_resolve_def HasCopies_def CopyFQN_def copy_excludes_iff)

lemma surviving_not_skipped:
  assumes "MpathInfo (ParsedFQN lom) = Some primary" and "surviving env lom j"
    and "copies_resolve env lom"
  shows "\<not> skipped env lom primary j"
  using assms
  by (auto simp: skipped_def surviving_def copies_resolve_def HasCopies_def CopyFQN_def copy_excludes_iff)

lemma findLeastUtilized_from_step:
  assumes "MpathInfo (ParsedFQN lom) = Some primary"
  shows "findLeastUtilized_from env lom ((k, j) # rest) out util =
     (if \<not> skipped env lom primary j \<and> GetDiskUtil env (Path (mountpathInfo j)) <s util
      then findLeastUtilized_from env lom rest (Some j) (GetDiskUtil env (Path (mountpathInfo j)))
      else findLeastUtilized_from env lom rest out util)"
  using assms by (auto simp: skipped_def Let_def)

lemma findLeastUtilized_from_inv:
  assumes "MpathInfo (ParsedFQN lom) = Some primary"
  shows "\<exists>out' util'. findLeastUtilized_from env lom xs out util = Inr (out', util') \<and>
           sint util' \<le> sint util \<and>
           (\<forall>(k, j) \<in> set xs. \<not> skipped env lom primary j \<longrightarrow>
               sint util' \<le> sint (GetDiskUtil env (Path (mountpathInfo j)))) \<and>
           ((out' = out \<and> util' = util) \<or>
            (\<exists>(k, j) \<in> set xs. out' = Some j \<and> \<not> skipped env lom primary j \<and>
                util' = GetDiskUtil env (Path (mountpathInfo j)) \<and> sint util' < sint util))"
proof (induction xs arbitrary: out util)
  case Nil
  show ?case by simp
next
  case (Cons x xs)
  obtain k j where x: "x = (k, j)" by (cases x)
  let ?u = "GetDiskUtil env (Path (mountpathInfo j))"
  show ?case
  proof (cases "\<not> skipped env lom primary j \<and> ?u <s util")
    case True
    from Cons.IH [of "Some j" ?u] obtain out' util' where
      r: "findLeastUtilized_from env lom xs (Some j) ?u = Inr (out', util')"
      and le: "sint util' \<le> sint ?u"
      and mn: "\<forall>(k, j) \<in> set xs. \<not> skipped env lom primary j \<longrightarrow>
               sint util' \<le> sint (GetDiskUtil env (Path (mountpathInfo j)))"
      and ch: "(out' = Some j \<and> util' = ?u) \<or>
            (\<exists>(k, j') \<in> set xs. out' = Some j' \<and> \<not> skipped env lom primary j' \<and>
                util' = GetDiskUtil env (Path (mountpathInfo j')) \<and> sint util' < sint ?u)"
      by blast
    from True have lt: "sint ?u < sint util" by (simp add: word_sless_alt)
    have "findLeastUtilized_from env lom (x # xs) out util = Inr (out', util')"
      using True r by (simp add: x findLeastUtilized_from_step [OF assms] del: findLeastUtilized_from.simps)
    moreover have "sint util' \<le> sint util" using le lt by simp
    moreover have "\<forall>(k, j) \<in> set (x # xs). \<not> skipped env lom primary j \<longrightarrow>
               sint util' \<le> sint (GetDiskUtil env (Path (mountpathInfo j)))"
      using mn le by (auto simp: x)
    moreover have "(\<exists>(k, j) \<in> set (x # xs). out' = Some j \<and> \<not> skipped env lom primary j \<and>
                util' = GetDiskUtil env (Path (mountpathInfo j)) \<and> sint util' < sint util)"
      using ch True lt le by (auto simp: x)
    ultimately show ?thesis by blast
  next
    case False
    from Cons.IH [of out util] obtain out' util' where
      r: "findLeastUtilized_from env lom xs out util = Inr (out', util')"
      and le: "sint util' \<le> sint util"
      and mn: "\<forall>(k, j) \<in> set xs. \<not> skipped env lom primary j \<longrightarrow>
               sint util' \<le> sint (GetDiskUtil env (Path (mountpathInfo j)))"
      and ch: "(out' = out \<and> util' = util) \<or>
            (\<exists>(k, j') \<in> set xs. out' = Some j' \<and> \<not> skipped env lom primary j' \<and>
                util' = GetDiskUtil env (Path (mountpathInfo j')) \<and> sint util' < sint util)"
      by blast
    have "findLeastUtilized_from env lom (x # xs) out util = Inr (out', util')"
      using False r by (auto simp add: x findLeastUtilized_from_step [OF assms] simp del: findLeastUtilized_from.simps)
    moreover have "\<forall>(k, j) \<in> set (x # xs). \<not> skipped env lom primary j \<longrightarrow>
               sint util' \<le> sint (GetDiskUtil env (Path (mountpathInfo j)))"
      using mn le False by (auto simp: x word_sless_alt)
    moreover have "(out' = out \<and> util' = util) \<or>
        (\<exists>(k, j) \<in> set (x # xs). out' = Some j \<and> \<not> skipped env lom primary j \<and>
                util' = GetDiskUtil env (Path (mountpathInfo j)) \<and> sint util' < sint util)"
      using ch by (auto simp: x)
    ultimately show ?thesis using le by blast
  qed
qed


text \<open>
  Claim C4, as amended. For an initialised LOM and any map of workers, in any
  iteration order: what \<open>findLeastUtilized\<close> returns is a candidate that is neither
  on the primary's mountpath nor on the mountpath of a copy, and no surviving candidate
  has a lower utilization; it returns nothing when no candidate survives, and also when
  a copy FQN of the LOM does not resolve to a mountpath (every candidate is then
  skipped); it does return a candidate when one survives, every copy FQN resolves and
  the utilizations are at most 100.
\<close>

theorem findLeastUtilized_picks_least_survivor:
  assumes primary: "MpathInfo (ParsedFQN lom) = Some primary"
  shows "\<exists>out. findLeastUtilized env lom mpathers = Inr out \<and>
           (\<forall>j. out = Some j \<longrightarrow>
              j \<in> snd ` set mpathers \<and> surviving env lom j \<and>
              (\<forall>s \<in> snd ` set mpathers. surviving env lom s \<longrightarrow>
                 GetDiskUtil env (Path (mountpathInfo j)) \<le>s GetDiskUtil env (Path (mountpathInfo s)))) \<and>
           ((\<forall>s \<in> snd ` set mpathers. \<not> surviving env lom s) \<longrightarrow> out = None) \<and>
           (copies_resolve env lom \<and>
            (\<forall>s \<in> snd ` set mpathers. sint (GetDiskUtil env (Path (mountpathInfo s))) \<le> 100) \<and>
            (\<exists>s \<in> snd ` set mpathers. surviving env lom s) \<longrightarrow> out \<noteq> None) \<and>
           (\<not> copies_resolve env lom \<longrightarrow> out = None)"
proof -
  from findLeastUtilized_from_inv [OF primary, of env mpathers None 101]
  obtain out util' where
    r: "findLeastUtilized_from env lom mpathers None 101 = Inr (out, util')"
    and mn: "\<forall>(k, j) \<in> set mpathers. \<not> skipped env lom primary j \<longrightarrow>
               sint util' \<le> sint (GetDiskUtil env (Path (mountpathInfo j)))"
    and ch: "(out = None \<and> util' = 101) \<or>
            (\<exists>(k, j) \<in> set mpathers. out = Some j \<and> \<not> skipped env lom primary j \<and>
                util' = GetDiskUtil env (Path (mountpathInfo j)) \<and> sint util' < sint (101 :: 64 word))"
    by blast
  have res: "findLeastUtilized env lom mpathers = Inr out"
    by (simp add: findLeastUtilized_def r)
  have some: "j \<in> snd ` set mpathers \<and> surviving env lom j \<and>
      (\<forall>s \<in> snd ` set mpathers. surviving env lom s \<longrightarrow>
         GetDiskUtil env (Path (mountpathInfo j)) \<le>s GetDiskUtil env (Path (mountpathInfo s)))"
    if o: "out = Some j" for j
  proof -
    from ch o obtain k where kj: "(k, j) \<in> set mpathers" and ns: "\<not> skipped env lom primary j"
      and u: "util' = GetDiskUtil env (Path (mountpathInfo j))"
      by auto
    from not_skipped_surviving [OF primary ns] have sj: "surviving env lom j"
      and cr: "copies_resolve env lom" by simp_all
    have "GetDiskUtil env (Path (mountpathInfo j)) \<le>s GetDiskUtil env (Path (mountpathInfo s))"
      if "s \<in> snd ` set mpathers" and "surviving env lom s" for s
    proof -
      from that(1) obtain k' where "(k', s) \<in> set mpathers" by auto
      moreover have "\<not> skipped env lom primary s"
        by (rule surviving_not_skipped [OF primary that(2) cr])
      ultimately show ?thesis using mn u by (auto simp: word_sle_eq)
    qed
    with kj sj show ?thesis by force
  qed
  have none: "out = None" if "\<forall>s \<in> snd ` set mpathers. \<not> surviving env lom s"
  proof (rule ccontr)
    assume "out \<noteq> None"
    then obtain j where "out = Some j" by auto
    from some [OF this] that show False by blast
  qed
  have ex: "out \<noteq> None"
    if h: "copies_resolve env lom \<and>
            (\<forall>s \<in> snd ` set mpathers. sint (GetDiskUtil env (Path (mountpathInfo s))) \<le> 100) \<and>
            (\<exists>s \<in> snd ` set mpathers. surviving env lom s)"
  proof
    assume "out = None"
    with ch have u: "util' = 101" by auto
    from h obtain s where s: "s \<in> snd ` set mpathers" and ss: "surviving env lom s" by blast
    from s obtain k where ks: "(k, s) \<in> set mpathers" by auto
    have "\<not> skipped env lom primary s"
      using surviving_not_skipped [OF primary ss] h by blast
    with mn ks have "sint util' \<le> sint (GetDiskUtil env (Path (mountpathInfo s)))" by auto
    moreover from h s have "sint (GetDiskUtil env (Path (mountpathInfo s))) \<le> 100" by blast
    ultimately show False using u by simp
  qed
  have unres: "out = None" if nr: "\<not> copies_resolve env lom"
  proof (rule ccontr)
    assume "out \<noteq> None"
    then obtain j where o: "out = Some j" by auto
    with ch have "\<not> skipped env lom primary j" by auto
    from not_skipped_surviving [OF primary this] nr show False by simp
  qed
  from res some none ex unres show ?thesis by blast
qed

lemmas mirror_eval = findLeastUtilized_def lom_a_def lom_b_def lom_gone_def worker_def env_util_def
  mp_on_def HasCopies_def CopyFQN_def surviving_def copies_resolve_def word_sless_alt Let_def

text \<open>
  Claim C4 as stated fails when a copy FQN does not parse: the worker on \<open>/c\<close> is not
  on the primary's mountpath \<open>/a\<close> and no copy resides on \<open>/c\<close>, so it survives
  in the claim's sense, yet nothing is returned.
\<close>

theorem findLeastUtilized_unresolved_copy_counterexample:
  "surviving env_util lom_gone (snd (worker (3, 0) ''/c'')) \<and>
   findLeastUtilized env_util lom_gone
     [worker (1, 0) ''/a'', worker (2, 0) ''/b'', worker (3, 0) ''/c''] = Inr None"
  by (simp add: mirror_eval)

text \<open>
  Primary on \<open>/a\<close>, a copy on \<open>/b\<close>, workers on \<open>/a\<close>, \<open>/b\<close>, \<open>/c\<close>
  (utilization 10) and \<open>/d\<close> (70): the worker on \<open>/c\<close> is returned.
\<close>

theorem findLeastUtilized_picks_least_survivor_witness:
  "copies_resolve env_util lom_b \<and>
   surviving env_util lom_b (snd (worker (3, 0) ''/c'')) \<and>
   \<not> surviving env_util lom_b (snd (worker (2, 0) ''/b'')) \<and>
   findLeastUtilized env_util lom_b
     [worker (1, 0) ''/a'', worker (2, 0) ''/b'', worker (3, 0) ''/c'', worker (4, 0) ''/d''] =
     Inr (Some (snd (worker (3, 0) ''/c'')))"
proof -
  have p: "MpathInfo (ParsedFQN lom_b) = Some (mp_on (1, 0) ''/a'')"
    by (simp add: lom_b_def lom_a_def)
  show ?thesis
    using findLeastUtilized_picks_least_survivor [OF p, of env_util
        "[worker (1, 0) ''/a'', worker (2, 0) ''/b'', worker (3, 0) ''/c'', worker (4, 0) ''/d'']"]
    by (simp add: mirror_eval)
qed

section \<open>Properties of the Put xaction\<close>

lemma drain_bckName: "bckName r = bckName r' \<Longrightarrow> drain r reqs = drain r' reqs"
  by (induction reqs) (auto simp: abortECRequestWhenDisabled_def split: option.splits)

lemma drain_update [simp]:
  "drain (r\<lparr>controlCh := c, rejectReq := b\<rparr>) reqs = drain r reqs"
  by (rule drain_bckName) simp














lemmas put_eval = put_exec_def Run_iter_def case_ready_def Encode_def Cleanup_def
  dispatchDecodingRequest_def dispatchRequest_def ecRequestsEnabled_def ClearRequests_def
  EnableRequests_def abortECRequestWhenDisabled_def setEcRequestsDisabled_def setEcRequestsEnabled_def
  stop_def Stop_def EndTime_def Finished_def IncPending_def requestBufSizeGlobal_def controlChSize_def
  put0_def Run_start_def NewPutXact_def Get_mfs_ab newPutJogger_def stop_jogger_def req_on_def
  xact0_def NewXactDemandBase_def NewXactBaseWithBucket_def NewXactBase_def XactBase.extend_def
  XactDemandBase.fields_def XactDemandBase.extend_def XactPut.fields_def lom_a_def mp_on_def Size_def
  Let_def





section \<open>Properties of the receive handler\<close>

text \<open>
  What \<open>writerReceive\<close> does for a response with \<open>Exists=false\<close>: it returns the
  not-found error, reads the whole body and discards it, writes nothing into the
  registered writer (the byte count, checksum and version of the slice stay as they
  were) and takes one job off the wait-group; the wait-group is signalled first and
  the body is drained after that.
\<close>

lemma writerReceive_not_exists:
  "fst (writerReceive writer False objAttrs rd) = Some ErrorNotFound \<and>
   fst (snd (writerReceive writer False objAttrs rd)) = writer\<lparr>sl_wg := sl_wg writer - 1\<rparr> \<and>
   sl_writer (fst (snd (writerReceive writer False objAttrs rd))) = sl_writer writer \<and>
   body (fst (snd (snd (writerReceive writer False objAttrs rd)))) = [] \<and>
   snd (snd (snd (writerReceive writer False objAttrs rd))) =
     [AllocFromSlab2, WgDone, DrainedBody (length (body rd)), SlabFree] \<and>
   precedes WgDone (DrainedBody (length (body rd)))
     (snd (snd (snd (writerReceive writer False objAttrs rd)))) \<and>
   \<not> precedes (DrainedBody (length (body rd))) WgDone
     (snd (snd (snd (writerReceive writer False objAttrs rd))))"
  by (simp add: writerReceive_def CopyBuffer_Discard_def precedes_def)

text \<open>
  Claim C3. The claim has the wait-group signalled after the body has been drained, as
  the function's own comment asks ("on completion") and as the branch for an existing
  object does. On a three-byte body with \<open>Exists=false\<close> the code does the opposite:
  the signal precedes the drain, the drain does not precede the signal.
\<close>

theorem writerReceive_signals_before_drain:
  "\<not> precedes (DrainedBody 3) WgDone (snd (snd (snd (writerReceive slice0 False attrs0 reader3)))) \<and>
   precedes WgDone (DrainedBody 3) (snd (snd (snd (writerReceive slice0 False attrs0 reader3))))"
  by (simp add: writerReceive_def CopyBuffer_Discard_def precedes_def reader3_def)

section \<open>Properties of the erasure-coding manager\<close>
















subsection \<open>Gating on the size of the cluster\<close>

text \<open>
  Claim C1, as amended. On a bucket with erasure coding enabled: when the cached
  target count is below \<open>DataSlices + ParitySlices + 1\<close> and the object is not small
  enough to be replicated, \<open>EncodeObject\<close> returns \<open>ErrorInsufficientTargets\<close> and
  leaves the LOM and the manager as they were (nothing is loaded, renewed or
  enqueued); when the count is below \<open>DataSlices + 1\<close>, \<open>RestoreObject\<close> returns
  \<open>ErrorInsufficientTargets\<close>, again with nothing changed.
\<close>

theorem EC_cluster_size_gating:
  "(Enabled (EC (BckProps lom)) \<and> \<not> IsECCopy (Size lom) (EC (BckProps lom)) \<and>
    sint (targetCnt mgr) < DataSlices (EC (BckProps lom)) + ParitySlices (EC (BckProps lom)) + 1 \<longrightarrow>
      EncodeObject env now lom mgr = Returns (Some ErrorInsufficientTargets, lom, mgr)) \<and>
   (Enabled (EC (BckProps lom)) \<and>
    sint (targetCnt mgr) < DataSlices (EC (BckProps lom)) + 1 \<longrightarrow>
      RestoreObject gops now ch lom mgr = Returns (Some ErrorInsufficientTargets, lom, mgr))"
  by (simp add: EncodeObject_def RestoreObject_def RequiredEncodeTargets_def
      RequiredRestoreTargets_def Let_def)

lemmas ec_eval = EncodeObject_def RestoreObject_def RequiredEncodeTargets_def RequiredRestoreTargets_def
  IsECCopy_def Size_def lom_small_def lom_a_def mgr_B_def env_ok_def restoreBckPutXact_def
  getBckXacts_def mp_on_def Let_def

text \<open>
  Claim C1 as stated fails for an object below the size limit: with three targets
  where five are required, \<open>EncodeObject\<close> returns nil and the split request is on
  the channel of the bucket's Put xaction.
\<close>

theorem EncodeObject_small_object_counterexample:
  "Enabled (EC (BckProps lom_small)) \<and>
   sint (targetCnt (mgr_B\<lparr>targetCnt := 3\<rparr>)) <
     DataSlices (EC (BckProps lom_small)) + ParitySlices (EC (BckProps lom_small)) + 1 \<and>
   (case EncodeObject env_ok 20 lom_small (mgr_B\<lparr>targetCnt := 3\<rparr>) of
      Returns (err, l, m) \<Rightarrow>
        err = None \<and>
        map_option (map Action \<circ> ecCh) (put_of m ''B'') = Some [ActSplit]
    | _ \<Rightarrow> False)"
  by (simp add: ec_eval put_eval put_of_def)

text \<open>The 1 MiB object with three targets; a restore with two.\<close>

theorem EC_cluster_size_gating_witness:
  "EncodeObject env_ok 20 lom_a (mgr_B\<lparr>targetCnt := 3\<rparr>) =
     Returns (Some ErrorInsufficientTargets, lom_a, mgr_B\<lparr>targetCnt := 3\<rparr>) \<and>
   RestoreObject gops_b 20 7 lom_small (mgr_B\<lparr>targetCnt := 2\<rparr>) =
     Returns (Some ErrorInsufficientTargets, lom_small, mgr_B\<lparr>targetCnt := 2\<rparr>)"
proof -
  have a: "Enabled (EC (BckProps lom_a)) \<and> \<not> IsECCopy (Size lom_a) (EC (BckProps lom_a)) \<and>
      sint (targetCnt (mgr_B\<lparr>targetCnt := 3\<rparr>)) <
        DataSlices (EC (BckProps lom_a)) + ParitySlices (EC (BckProps lom_a)) + 1"
    by (simp add: lom_a_def IsECCopy_def Size_def)
  have b: "Enabled (EC (BckProps lom_small)) \<and>
      sint (targetCnt (mgr_B\<lparr>targetCnt := 2\<rparr>)) < DataSlices (EC (BckProps lom_small)) + 1"
    by (simp add: lom_small_def lom_a_def)
  from EC_cluster_size_gating
    [where lom = lom_a and mgr = "mgr_B\<lparr>targetCnt := 3\<rparr>" and env = env_ok and now = 20,
      THEN conjunct1, rule_format, OF a]
    EC_cluster_size_gating
    [where lom = lom_small and mgr = "mgr_B\<lparr>targetCnt := 2\<rparr>" and gops = gops_b and now = 20
        and ch = 7, THEN conjunct2, rule_format, OF b]
  show ?thesis by simp
qed

end
